theory Spec2Isabelle
  imports Main "HOL-Library.Word"
begin

section \<open>JavaScript values used by the widgets\<close>

text \<open>
  A JavaScript string is a sequence of 16-bit code units. String literals of the source
  are ASCII and are written \<open>utf16 ''...''\<close>. A thrown value is a \<open>js_error\<close>, and a
  method that can throw returns \<open>js_error + 'a\<close>. Numbers that the widgets count with
  (\<open>this.count\<close>, the parsed text of the todo counter) are integer-valued doubles; they are
  represented by \<open>int\<close>, which is what double arithmetic computes while the magnitude stays
  below \<open>2 ^ 53\<close>.
\<close>

type_synonym code_unit = "16 word"

type_synonym js_string = "code_unit list"

definition utf16 :: "string \<Rightarrow> js_string" where
  "utf16 s = map (\<lambda>c. of_nat (of_char c)) s"

datatype js_error = TypeError js_string | Error js_string

text \<open>
  An event as the handlers read it: \<open>event.type\<close>, and the fields \<open>id\<close> and \<open>text\<close> of
  \<open>event.detail\<close> (\<open>None\<close> where the payload has no such field).
\<close>

record event =
  ev_type :: js_string
  detail_id :: "js_string option"
  detail_text :: "js_string option"

definition Event :: "js_string \<Rightarrow> event" where
  "Event t = \<lparr>ev_type = t, detail_id = None, detail_text = None\<rparr>"

subsection \<open>Number to string\<close>

definition digit :: "nat \<Rightarrow> code_unit" where
  "digit d = of_nat (48 + d)"

fun digits :: "nat \<Rightarrow> js_string" where
  "digits n = (if n < 10 then [digit n] else digits (n div 10) @ [digit (n mod 10)])"

declare digits.simps [simp del]

text \<open>\<open>String(n)\<close> for an integer-valued number of magnitude below \<open>10 ^ 21\<close>.\<close>

definition Number_toString :: "int \<Rightarrow> js_string" where
  "Number_toString n = (if n < 0 then utf16 ''-'' @ digits (nat (- n)) else digits (nat n))"

subsection \<open>Whitespace, trim and parseInt\<close>

text \<open>
  The code units that ECMAScript counts as white space or line terminator; \<open>trim\<close> strips
  them from both ends, and \<open>parseInt\<close> skips them at the start.
\<close>

definition is_ws :: "code_unit \<Rightarrow> bool" where
  "is_ws c =
     (c \<in> {0x9, 0xA, 0xB, 0xC, 0xD, 0x20, 0xA0, 0x1680, 0x2028, 0x2029, 0x202F, 0x205F,
            0x3000, 0xFEFF}
      \<or> (0x2000 \<le> c \<and> c \<le> 0x200A))"

definition trim :: "js_string \<Rightarrow> js_string" where
  "trim s = rev (dropWhile is_ws (rev (dropWhile is_ws s)))"

definition is_digit :: "code_unit \<Rightarrow> bool" where
  "is_digit c = (0x30 \<le> c \<and> c \<le> 0x39)"

definition digit_value :: "code_unit \<Rightarrow> nat" where
  "digit_value c = unat c - 48"

definition digits_value :: "js_string \<Rightarrow> nat" where
  "digits_value Z = foldl (\<lambda>a c. 10 * a + digit_value c) 0 Z"

text \<open>
  \<open>parseInt(s, 10)\<close>: skip leading white space, read an optional sign, then the longest
  run of decimal digits; \<open>None\<close> is \<open>NaN\<close> (no digit found).
\<close>

definition parse_digits :: "bool \<Rightarrow> js_string \<Rightarrow> int option" where
  "parse_digits neg S =
     (let Z = takeWhile is_digit S
      in if Z = [] then None
         else Some (if neg then - int (digits_value Z) else int (digits_value Z)))"

definition parseInt :: "js_string \<Rightarrow> int option" where
  "parseInt s =
     (case dropWhile is_ws s of
        [] \<Rightarrow> None
      | c # r \<Rightarrow>
          if c = 0x2D then parse_digits True r
          else if c = 0x2B then parse_digits False r
          else parse_digits False (c # r))"

text \<open>The string of a number that may be \<open>NaN\<close>, as assigning it to \<open>textContent\<close> stores it.\<close>

definition String_of_number :: "int option \<Rightarrow> js_string" where
  "String_of_number v = (case v of None \<Rightarrow> utf16 ''NaN'' | Some n \<Rightarrow> Number_toString n)"

text \<open>
  The string that \<open>setAttribute\<close> or a template literal makes of a value that is a
  string or \<open>undefined\<close>.
\<close>

definition template_string :: "js_string option \<Rightarrow> js_string" where
  "template_string v = (case v of None \<Rightarrow> utf16 ''undefined'' | Some s \<Rightarrow> s)"

section \<open>The counter (counterComponent.js, lines 1-75)\<close>

text \<open>
  \<open>count-total\<close> holds its \<open>count\<close> attribute and the text of the \<open>span\<close> it renders into
  its shadow root. \<open>count\<close> is an observed attribute: writing it runs
  \<open>attributeChangedCallback\<close>, which renders.
\<close>

record CountTotal =
  attr_count :: "js_string option"
  span :: js_string

definition CountTotal_render :: "CountTotal \<Rightarrow> CountTotal" where
  "CountTotal_render ct =
     ct\<lparr>span := (case attr_count ct of None \<Rightarrow> utf16 ''null'' | Some v \<Rightarrow> v)\<rparr>"

definition attributeChangedCallback :: "js_string \<Rightarrow> CountTotal \<Rightarrow> CountTotal" where
  "attributeChangedCallback name ct =
     (if name = utf16 ''count'' then CountTotal_render ct else ct)"

definition CountTotal_setAttribute :: "js_string \<Rightarrow> js_string \<Rightarrow> CountTotal \<Rightarrow> CountTotal" where
  "CountTotal_setAttribute name v ct =
     (if name = utf16 ''count''
      then attributeChangedCallback name (ct\<lparr>attr_count := Some v\<rparr>)
      else ct)"

text \<open>
  \<open>counter-component\<close>: the field \<open>count\<close> and the \<open>count-total\<close> child of its shadow root
  (\<open>None\<close> until \<open>render\<close> has filled the shadow root).
\<close>

record CounterRoot =
  count :: int
  shadow_count_total :: "CountTotal option"

definition CounterRoot_constructor :: CounterRoot where
  "CounterRoot_constructor = \<lparr>count = 0, shadow_count_total = None\<rparr>"

definition CounterRoot_render :: "CounterRoot \<Rightarrow> CounterRoot" where
  "CounterRoot_render r =
     r\<lparr>shadow_count_total :=
         Some (CountTotal_render \<lparr>attr_count = Some (Number_toString (count r)), span = []\<rparr>)\<rparr>"

text \<open>
  \<open>hydrate\<close> registers the root as listener on the two buttons; \<open>querySelector\<close> returns
  \<open>null\<close> on a shadow root that was not rendered, and the call on it throws.
\<close>

definition CounterRoot_hydrate :: "CounterRoot \<Rightarrow> js_error + CounterRoot" where
  "CounterRoot_hydrate r =
     (case shadow_count_total r of
        None \<Rightarrow> Inl (TypeError (utf16 ''null has no addEventListener''))
      | Some _ \<Rightarrow> Inr r)"

definition CounterRoot_connectedCallback :: "CounterRoot \<Rightarrow> js_error + CounterRoot" where
  "CounterRoot_connectedCallback r = CounterRoot_hydrate (CounterRoot_render r)"

definition update :: "CounterRoot \<Rightarrow> js_error + CounterRoot" where
  "update r =
     (case shadow_count_total r of
        None \<Rightarrow> Inl (TypeError (utf16 ''null has no setAttribute''))
      | Some ct \<Rightarrow>
          Inr (r\<lparr>shadow_count_total :=
                   Some (CountTotal_setAttribute (utf16 ''count'') (Number_toString (count r)) ct)\<rparr>))"

definition CounterRoot_handleEvent :: "event \<Rightarrow> CounterRoot \<Rightarrow> js_error + CounterRoot" where
  "CounterRoot_handleEvent e r =
     update
       (if ev_type e = utf16 ''increment'' then r\<lparr>count := count r + 1\<rparr>
        else if ev_type e = utf16 ''decrement'' then r\<lparr>count := count r - 1\<rparr>
        else r)"

text \<open>Events are delivered one after the other; an uncaught error ends the run.\<close>

fun CounterRoot_deliver :: "event list \<Rightarrow> CounterRoot \<Rightarrow> js_error + CounterRoot" where
  "CounterRoot_deliver [] r = Inr r"
| "CounterRoot_deliver (e # es) r =
     (case CounterRoot_handleEvent e r of
        Inl err \<Rightarrow> Inl err
      | Inr r' \<Rightarrow> CounterRoot_deliver es r')"

text \<open>The net sum of an event sequence: +1 per increment, -1 per decrement.\<close>

definition net_sum :: "event list \<Rightarrow> int" where
  "net_sum es =
     int (length (filter (\<lambda>e. ev_type e = utf16 ''increment'') es))
     - int (length (filter (\<lambda>e. ev_type e = utf16 ''decrement'') es))"

section \<open>The todo list (iconThemeAware.js, lines 1399-1628)\<close>

text \<open>
  A \<open>todo-item\<close> element of the list: its \<open>id\<close> and \<open>text\<close> attributes, and whether the
  todo-component is registered on it as listener for \<open>todo-item-delete\<close>.
\<close>

record TodoItem =
  attr_id :: js_string
  attr_text :: js_string
  listening :: bool

text \<open>
  The connected todo-component: the content of the text field of \<open>todo-input\<close>, the
  children of \<open>#todo-list-ul\<close>, the array \<open>this.todoItems\<close>, and the \<open>textContent\<close> of the
  \<open>div\<close> of \<open>todo-count\<close>.
\<close>

record TodoComponent =
  input_value :: js_string
  listUl :: "TodoItem list"
  todoItems :: "TodoItem list"
  count_text :: js_string

text \<open>The state after \<open>connectedCallback\<close>: every child rendered, nothing entered.\<close>

definition TodoComponent_connected :: TodoComponent where
  "TodoComponent_connected =
     \<lparr>input_value = [], listUl = [], todoItems = [], count_text = utf16 ''0''\<rparr>"

subsection \<open>todo-input\<close>

text \<open>
  The submit listener of the form: \<open>now\<close> is the reading of \<open>Date.now()\<close>, \<open>raw\<close> is
  \<open>formData.get("todo")\<close> (\<open>None\<close> for \<open>null\<close>). It returns the event it dispatches, if any.
\<close>

definition submit_listener :: "int \<Rightarrow> js_string option \<Rightarrow> event option" where
  "submit_listener now raw =
     (let val = map_option trim raw;
          tid = Number_toString now
      in case val of
           None \<Rightarrow> None
         | Some v \<Rightarrow>
             if v = [] then None
             else Some \<lparr>ev_type = utf16 ''todo-input-submit'',
                        detail_id = Some tid, detail_text = Some v\<rparr>)"

text \<open>\<open>update\<close> renders the form again: the text field is empty afterwards.\<close>

definition todoInput_update :: "TodoComponent \<Rightarrow> TodoComponent" where
  "todoInput_update s = s\<lparr>input_value := []\<rparr>"

subsection \<open>todo-list\<close>

text \<open>
  \<open>querySelector('todo-item[id="..."]')\<close> yields the first \<open>todo-item\<close> whose \<open>id\<close> attribute
  is the identifier spliced into the selector. That is the selector's meaning for an
  identifier without double quote, backslash or line break, as every rendering of a clock
  reading is.
\<close>

definition querySelector_todo_item :: "js_string option \<Rightarrow> TodoItem list \<Rightarrow> TodoItem option" where
  "querySelector_todo_item tid items = find (\<lambda>it. attr_id it = template_string tid) items"

definition createListItem :: "js_string option \<Rightarrow> js_string option \<Rightarrow> TodoComponent \<Rightarrow> TodoComponent" where
  "createListItem text tid s =
     s\<lparr>listUl := listUl s @
         [\<lparr>attr_id = template_string tid, attr_text = template_string text, listening = False\<rparr>]\<rparr>"

fun remove_first :: "js_string \<Rightarrow> TodoItem list \<Rightarrow> TodoItem list" where
  "remove_first i [] = []"
| "remove_first i (it # items) = (if attr_id it = i then items else it # remove_first i items)"

definition deleteListItem :: "js_string option \<Rightarrow> TodoComponent \<Rightarrow> TodoComponent" where
  "deleteListItem tid s =
     (case querySelector_todo_item tid (listUl s) of
        None \<Rightarrow> s
      | Some itemToRemove \<Rightarrow> s\<lparr>listUl := remove_first (template_string tid) (listUl s)\<rparr>)"

subsection \<open>todo-count\<close>

definition incrementCount :: "TodoComponent \<Rightarrow> TodoComponent" where
  "incrementCount s =
     s\<lparr>count_text := String_of_number (map_option (\<lambda>n. n + 1) (parseInt (count_text s)))\<rparr>"

definition decrementCount :: "TodoComponent \<Rightarrow> TodoComponent" where
  "decrementCount s =
     s\<lparr>count_text := String_of_number (map_option (\<lambda>n. n - 1) (parseInt (count_text s)))\<rparr>"

subsection \<open>todo-component\<close>

fun addEventListener_first :: "js_string \<Rightarrow> TodoItem list \<Rightarrow> TodoItem list" where
  "addEventListener_first i [] = []"
| "addEventListener_first i (it # items) =
     (if attr_id it = i then it\<lparr>listening := True\<rparr> # items
      else it # addEventListener_first i items)"

definition appendTodoItem :: "js_string option \<Rightarrow> TodoComponent \<Rightarrow> TodoComponent" where
  "appendTodoItem tid s =
     (case querySelector_todo_item tid (listUl s) of
        None \<Rightarrow> s
      | Some newItem \<Rightarrow>
          s\<lparr>listUl := addEventListener_first (template_string tid) (listUl s),
            todoItems := todoItems s @ [newItem\<lparr>listening := True\<rparr>]\<rparr>)"

definition removeTodoItem :: "js_string option \<Rightarrow> TodoComponent \<Rightarrow> TodoComponent" where
  "removeTodoItem tid s =
     s\<lparr>todoItems := filter (\<lambda>item. Some (attr_id item) \<noteq> tid) (todoItems s)\<rparr>"

definition TodoComponent_handleEvent :: "event \<Rightarrow> TodoComponent \<Rightarrow> TodoComponent" where
  "TodoComponent_handleEvent e s =
     (if ev_type e = utf16 ''todo-input-submit'' then
        incrementCount
          (todoInput_update
            (appendTodoItem (detail_id e)
              (createListItem (detail_text e) (detail_id e) s)))
      else if ev_type e = utf16 ''todo-item-delete'' then
        decrementCount (removeTodoItem (detail_id e) (deleteListItem (detail_id e) s))
      else s)"

text \<open>
  What the user does: type into the text field, and submit the form at clock reading
  \<open>now\<close>. A dispatched \<open>todo-input-submit\<close> reaches the component, which listens on
  \<open>todo-input\<close>.
\<close>

definition enter_text :: "js_string \<Rightarrow> TodoComponent \<Rightarrow> TodoComponent" where
  "enter_text raw s = s\<lparr>input_value := raw\<rparr>"

definition submit :: "int \<Rightarrow> TodoComponent \<Rightarrow> TodoComponent" where
  "submit now s =
     (case submit_listener now (Some (input_value s)) of
        None \<Rightarrow> s
      | Some e \<Rightarrow> TodoComponent_handleEvent e s)"

text \<open>The rendered entries: identifier and text of every item, in list order.\<close>

definition entries :: "TodoComponent \<Rightarrow> (js_string \<times> js_string) list" where
  "entries s = map (\<lambda>it. (attr_id it, attr_text it)) (listUl s)"

text \<open>
  The delete button of the \<open>k\<close>-th list item: the item dispatches \<open>todo-item-delete\<close> with
  its own \<open>id\<close> attribute, and the component hears it if it listens on that item.
\<close>

definition click_delete :: "nat \<Rightarrow> TodoComponent \<Rightarrow> TodoComponent" where
  "click_delete k s =
     (if k < length (listUl s) \<and> listening (listUl s ! k)
      then TodoComponent_handleEvent
             \<lparr>ev_type = utf16 ''todo-item-delete'',
              detail_id = Some (attr_id (listUl s ! k)), detail_text = None\<rparr> s
      else s)"

text \<open>
  An identifier that the attribute selector takes literally: no double quote, backslash
  or line break in it.
\<close>

definition selector_plain :: "js_string \<Rightarrow> bool" where
  "selector_plain i =
     list_all (\<lambda>c. c \<noteq> 0x22 \<and> c \<noteq> 0x5C \<and> c \<noteq> 0xA \<and> c \<noteq> 0xC \<and> c \<noteq> 0xD) i"

text \<open>
  The property of identifiers as the specification words it: the identifier of the newest
  entry is, as a number, strictly greater than the identifier of every entry before it.
\<close>

definition newest_id_exceeds_previous :: "TodoComponent \<Rightarrow> bool" where
  "newest_id_exceeds_previous s =
     (case rev (listUl s) of
        [] \<Rightarrow> True
      | it # previous \<Rightarrow>
          list_all (\<lambda>p. case (parseInt (attr_id p), parseInt (attr_id it)) of
                          (Some a, Some b) \<Rightarrow> a < b
                        | _ \<Rightarrow> False) previous)"

section \<open>The hamburger menu (iconThemeAware.js, lines 876-1398)\<close>

subsection \<open>The navigation entries\<close>

text \<open>
  The value of \<open>data-links\<close> is meant to be the JSON text of an array of entries
  \<open>{name, url, children?}\<close>, the children being entries \<open>{name, url}\<close>. \<open>JSON.parse\<close> is
  the platform's; the model takes its outcome: it throws, or it returns \<open>null\<close> (what it
  makes of a missing attribute), an array of entries, or a value of another kind (an
  object, a number, a string, a boolean), which has no \<open>forEach\<close>.
\<close>

record NavChild =
  child_name :: js_string
  child_url :: "js_string option"

record NavLink =
  link_name :: js_string
  link_url :: "js_string option"
  link_children :: "NavChild list"

datatype data_links = JsonNull | JsonOther | JsonArray "NavLink list"

datatype parse_result = Throws js_error | Returns data_links

text \<open>
  An \<open>a\<close> element that \<open>createLinkItem\<close> or \<open>createSubLinkItem\<close> makes. \<open>hx_get\<close> stands for the
  attributes \<open>hx-get\<close> and \<open>hx-push-url\<close>, which are set together with the constant
  \<open>hx-select\<close>, \<open>hx-swap\<close>, \<open>hx-target\<close> and \<open>hx-on:click\<close>. \<open>menu_click\<close> tells whether the
  hamburger-menu has registered its click listener on the element.
\<close>

record Anchor =
  textContent :: js_string
  classList :: js_string
  anchor_id :: "js_string option"
  tabIndex :: "int option"
  hx_get :: "js_string option"
  menu_click :: bool

text \<open>
  An \<open>li\<close> element of the list: its anchor, its \<open>tabIndex\<close> if set, the anchors of its
  sub-list (\<open>None\<close> for an entry without children), and whether the class \<open>open\<close> is on it
  and on its sub-list.
\<close>

record LinkItem =
  anchor :: Anchor
  li_tabIndex :: "int option"
  subUl :: "Anchor list option"
  li_open :: bool

definition createSubLinkItem :: "NavChild \<Rightarrow> Anchor" where
  "createSubLinkItem child =
     \<lparr>textContent = child_name child,
      classList = utf16 ''hm-nav-sub-link'',
      anchor_id = Some (utf16 ''hm-nav-link''),
      tabIndex = Some 0,
      hx_get = Some (template_string (child_url child)),
      menu_click = False\<rparr>"

definition createLinkItem :: "NavLink \<Rightarrow> LinkItem" where
  "createLinkItem link =
     (if link_children link \<noteq> [] then
        \<lparr>anchor = \<lparr>textContent = link_name link, classList = utf16 ''link-parent'',
                   anchor_id = None, tabIndex = None, hx_get = None, menu_click = False\<rparr>,
         li_tabIndex = Some 0,
         subUl = Some (map createSubLinkItem (link_children link)),
         li_open = False\<rparr>
      else
        \<lparr>anchor = \<lparr>textContent = link_name link, classList = utf16 ''hm-nav-link'',
                   anchor_id = Some (utf16 ''hm-nav-link''), tabIndex = Some 0,
                   hx_get = (case link_url link of
                               None \<Rightarrow> None
                             | Some u \<Rightarrow> if u = [] then None else Some u),
                   menu_click = False\<rparr>,
         li_tabIndex = None,
         subUl = None,
         li_open = False\<rparr>)"

subsection \<open>hamburger-nav\<close>

text \<open>
  The \<open>hamburger-nav\<close> element: the field \<open>dataLinks\<close> (\<open>None\<close> is \<open>undefined\<close>), the items of
  the list \<open>ul#hm-nav\<close> it has appended (\<open>None\<close> while it has appended none), what it wrote
  with \<open>console.error\<close>, and whether \<open>hydrate\<close> has set up its attribute observer.
\<close>

record HamburgerNav =
  dataLinks :: "data_links option"
  nav_ul :: "LinkItem list option"
  console_error :: "js_string list"
  observing :: bool

definition HamburgerNav_constructor :: HamburgerNav where
  "HamburgerNav_constructor =
     \<lparr>dataLinks = Some JsonNull, nav_ul = None, console_error = [], observing = False\<rparr>"

text \<open>
  \<open>getDataLinks\<close> with the outcome \<open>parsed\<close> of \<open>JSON.parse(raw)\<close>: a thrown error is caught
  and logged, and the method returns without a value.
\<close>

definition getDataLinks :: "parse_result \<Rightarrow> HamburgerNav \<Rightarrow> data_links option \<times> HamburgerNav" where
  "getDataLinks parsed n =
     (case parsed of
        Throws e \<Rightarrow>
          (None, n\<lparr>console_error := console_error n @ [utf16 ''Invalid JSON in data-links:'']\<rparr>)
      | Returns links \<Rightarrow> (Some links, n))"

text \<open>
  \<open>render\<close>. The call \<open>this.dataLinks.forEach\<close> throws on \<open>undefined\<close>, on \<open>null\<close> and on a
  value without \<open>forEach\<close>; the error leaves \<open>render\<close> with the element as it is then.
\<close>

definition HamburgerNav_render ::
  "parse_result \<Rightarrow> HamburgerNav \<Rightarrow> (js_error \<times> HamburgerNav) + HamburgerNav" where
  "HamburgerNav_render parsed n =
     (let (links, n1) = getDataLinks parsed n;
          n2 = n1\<lparr>dataLinks := links\<rparr>
      in case links of
           None \<Rightarrow> Inl (TypeError (utf16 ''cannot read forEach of undefined''), n2)
         | Some JsonNull \<Rightarrow> Inl (TypeError (utf16 ''cannot read forEach of null''), n2)
         | Some JsonOther \<Rightarrow> Inl (TypeError (utf16 ''forEach is not a function''), n2)
         | Some (JsonArray ls) \<Rightarrow> Inr (n2\<lparr>nav_ul := Some (map createLinkItem ls)\<rparr>))"

definition HamburgerNav_hydrate :: "HamburgerNav \<Rightarrow> HamburgerNav" where
  "HamburgerNav_hydrate n = n\<lparr>observing := True\<rparr>"

definition HamburgerNav_connectedCallback ::
  "parse_result \<Rightarrow> HamburgerNav \<Rightarrow> (js_error \<times> HamburgerNav) + HamburgerNav" where
  "HamburgerNav_connectedCallback parsed n =
     (case HamburgerNav_render parsed n of
        Inl err \<Rightarrow> Inl err
      | Inr n' \<Rightarrow> Inr (HamburgerNav_hydrate n'))"

subsection \<open>hamburger-menu\<close>

text \<open>
  The \<open>hamburger-menu\<close> element after \<open>render\<close>: the \<open>data-active\<close> attributes of its
  \<open>hamburger-icon\<close> and of its \<open>hamburger-nav\<close>, and the \<open>hamburger-nav\<close> element.
\<close>

record HamburgerMenu =
  hmIcon_active :: "js_string option"
  hmNav_active :: "js_string option"
  hmNav :: HamburgerNav

definition String_of_bool :: "bool \<Rightarrow> js_string" where
  "String_of_bool b = (if b then utf16 ''true'' else utf16 ''false'')"

text \<open>
  \<open>render\<close> writes both children with \<open>data-active="false"\<close>. The three elements being
  defined when the menu is connected, the children are connected while \<open>innerHTML\<close> is
  assigned, so that \<open>hamburger-nav\<close> has rendered its links before \<open>hydrate\<close> looks for them;
  a \<open>hamburger-nav\<close> whose \<open>render\<close> threw stays as the error left it.
\<close>

definition HamburgerMenu_render :: "parse_result \<Rightarrow> HamburgerMenu" where
  "HamburgerMenu_render parsed =
     \<lparr>hmIcon_active = Some (utf16 ''false''),
      hmNav_active = Some (utf16 ''false''),
      hmNav = (case HamburgerNav_connectedCallback parsed HamburgerNav_constructor of
                 Inl (err, n) \<Rightarrow> n
               | Inr n \<Rightarrow> n)\<rparr>"

text \<open>
  \<open>attachEventListener\<close>: the click listener goes on the icon and on every element with
  the id \<open>hm-nav-link\<close> that the menu contains at that moment.
\<close>

definition attach_anchor :: "Anchor \<Rightarrow> Anchor" where
  "attach_anchor a =
     (if anchor_id a = Some (utf16 ''hm-nav-link'') then a\<lparr>menu_click := True\<rparr> else a)"

definition attach_item :: "LinkItem \<Rightarrow> LinkItem" where
  "attach_item li =
     li\<lparr>anchor := attach_anchor (anchor li), subUl := map_option (map attach_anchor) (subUl li)\<rparr>"

definition attachEventListener :: "HamburgerMenu \<Rightarrow> HamburgerMenu" where
  "attachEventListener m =
     m\<lparr>hmNav := (hmNav m)\<lparr>nav_ul := map_option (map attach_item) (nav_ul (hmNav m))\<rparr>\<rparr>"

definition setMenuState :: "HamburgerMenu \<Rightarrow> HamburgerMenu" where
  "setMenuState m =
     m\<lparr>hmIcon_active := Some (utf16 ''false''), hmNav_active := Some (utf16 ''false'')\<rparr>"

definition toggleAttribute :: "HamburgerMenu \<Rightarrow> HamburgerMenu" where
  "toggleAttribute m =
     (let current = (hmIcon_active m = Some (utf16 ''true''))
      in m\<lparr>hmIcon_active := Some (String_of_bool (\<not> current)),
           hmNav_active := Some (String_of_bool (\<not> current))\<rparr>)"

definition HamburgerMenu_hydrate :: "HamburgerMenu \<Rightarrow> HamburgerMenu" where
  "HamburgerMenu_hydrate m = setMenuState (attachEventListener m)"

definition HamburgerMenu_connectedCallback :: "parse_result \<Rightarrow> HamburgerMenu" where
  "HamburgerMenu_connectedCallback parsed = HamburgerMenu_hydrate (HamburgerMenu_render parsed)"

subsection \<open>Clicks\<close>

text \<open>
  Where a click lands: on the icon, on the anchor of the \<open>i\<close>-th list item, or on the
  \<open>j\<close>-th anchor of the sub-list of the \<open>i\<close>-th item. The listeners of the target run
  first; the click then bubbles to the \<open>li\<close>, whose listener (an item with children has
  one) toggles the class \<open>open\<close>.
\<close>

datatype click_target = OnIcon | OnLink nat | OnSubLink nat nat

definition nav_items :: "HamburgerMenu \<Rightarrow> LinkItem list" where
  "nav_items m = (case nav_ul (hmNav m) of None \<Rightarrow> [] | Some items \<Rightarrow> items)"

definition target_anchor :: "click_target \<Rightarrow> HamburgerMenu \<Rightarrow> Anchor option" where
  "target_anchor t m =
     (case t of
        OnIcon \<Rightarrow> None
      | OnLink i \<Rightarrow> if i < length (nav_items m) then Some (anchor (nav_items m ! i)) else None
      | OnSubLink i j \<Rightarrow>
          if i < length (nav_items m) then
            (case subUl (nav_items m ! i) of
               None \<Rightarrow> None
             | Some subs \<Rightarrow> if j < length subs then Some (subs ! j) else None)
          else None)"

definition toggle_open :: "nat \<Rightarrow> HamburgerMenu \<Rightarrow> HamburgerMenu" where
  "toggle_open i m =
     (case nav_ul (hmNav m) of
        None \<Rightarrow> m
      | Some items \<Rightarrow>
          if i < length items \<and> subUl (items ! i) \<noteq> None
          then m\<lparr>hmNav := (hmNav m)
                  \<lparr>nav_ul := Some (items[i := (items ! i)\<lparr>li_open := \<not> li_open (items ! i)\<rparr>])\<rparr>\<rparr>
          else m)"

definition click :: "click_target \<Rightarrow> HamburgerMenu \<Rightarrow> HamburgerMenu" where
  "click t m =
     (case t of
        OnIcon \<Rightarrow> toggleAttribute m
      | OnLink i \<Rightarrow>
          (case target_anchor t m of
             None \<Rightarrow> m
           | Some a \<Rightarrow> toggle_open i (if menu_click a then toggleAttribute m else m))
      | OnSubLink i j \<Rightarrow>
          (case target_anchor t m of
             None \<Rightarrow> m
           | Some a \<Rightarrow> toggle_open i (if menu_click a then toggleAttribute m else m)))"

fun clicks :: "click_target list \<Rightarrow> HamburgerMenu \<Rightarrow> HamburgerMenu" where
  "clicks [] m = m"
| "clicks (t # ts) m = clicks ts (click t m)"

text \<open>
  A generated navigation link that the menu listens on: an anchor with the id
  \<open>hm-nav-link\<close>, which the anchor of an entry without children and every anchor of a
  sub-list have.
\<close>

definition on_generated_link :: "click_target \<Rightarrow> HamburgerMenu \<Rightarrow> bool" where
  "on_generated_link t m =
     (case target_anchor t m of
        None \<Rightarrow> False
      | Some a \<Rightarrow> anchor_id a = Some (utf16 ''hm-nav-link''))"

text \<open>
  The listeners that \<open>attachEventListener\<close> leaves behind: every anchor with the id
  \<open>hm-nav-link\<close> carries the click listener of the menu.
\<close>

definition listener_on_anchor :: "Anchor \<Rightarrow> bool" where
  "listener_on_anchor a = (if anchor_id a = Some (utf16 ''hm-nav-link'') then menu_click a else True)"

definition listeners_on_item :: "LinkItem \<Rightarrow> bool" where
  "listeners_on_item li =
     (listener_on_anchor (anchor li)
      \<and> (case subUl li of None \<Rightarrow> True | Some subs \<Rightarrow> list_all listener_on_anchor subs))"

definition listeners_attached :: "HamburgerMenu \<Rightarrow> bool" where
  "listeners_attached m = list_all listeners_on_item (nav_items m)"

text \<open>A navigation entry without children, for the examples.\<close>

definition home_link :: NavLink where
  "home_link = \<lparr>link_name = utf16 ''Home'', link_url = Some (utf16 ''/''), link_children = []\<rparr>"

section \<open>The theme toggle (iconThemeAware.js, lines 381-603)\<close>

text \<open>
  The \<open>data-theme\<close> attribute of the document element (\<open>None\<close> when absent), and the
  \<open>data-active\<close> attributes of the \<open>icon-sun\<close> and \<open>icon-moon\<close> children of the shadow root
  (\<open>None\<close> until \<open>render\<close> has made the children: \<open>querySelector(...)?.setAttribute\<close> skips
  a child that is not there).
\<close>

record ToggleTheme =
  data_theme :: "js_string option"
  icon_sun_active :: "js_string option"
  icon_moon_active :: "js_string option"
  rendered :: bool

definition ToggleTheme_constructor :: "js_string option \<Rightarrow> ToggleTheme" where
  "ToggleTheme_constructor theme =
     \<lparr>data_theme = theme, icon_sun_active = None, icon_moon_active = None, rendered = False\<rparr>"

text \<open>\<open>prefersDark\<close> is what \<open>matchMedia("(prefers-color-scheme: dark)")\<close> answers.\<close>

definition setSystemTheme :: "bool \<Rightarrow> ToggleTheme \<Rightarrow> ToggleTheme" where
  "setSystemTheme prefersDark s =
     (case data_theme s of
        Some currentTheme \<Rightarrow> s
      | None \<Rightarrow>
          s\<lparr>data_theme := Some (if prefersDark then utf16 ''dark'' else utf16 ''light'')\<rparr>)"

definition setIconVisibility :: "js_string \<Rightarrow> ToggleTheme \<Rightarrow> js_string" where
  "setIconVisibility icon s =
     (let dataTheme = (case data_theme s of
                         None \<Rightarrow> utf16 ''light''
                       | Some t \<Rightarrow> if t = [] then utf16 ''light'' else t)
      in if icon = utf16 ''sun'' then
           (if dataTheme = utf16 ''dark'' then utf16 ''true'' else utf16 ''false'')
         else if icon = utf16 ''moon'' then
           (if dataTheme = utf16 ''light'' then utf16 ''true'' else utf16 ''false'')
         else utf16 ''false'')"

definition ToggleTheme_render :: "ToggleTheme \<Rightarrow> ToggleTheme" where
  "ToggleTheme_render s =
     s\<lparr>icon_sun_active := Some (setIconVisibility (utf16 ''sun'') s),
       icon_moon_active := Some (setIconVisibility (utf16 ''moon'') s),
       rendered := True\<rparr>"

definition ToggleTheme_connectedCallback :: "bool \<Rightarrow> ToggleTheme \<Rightarrow> ToggleTheme" where
  "ToggleTheme_connectedCallback prefersDark s = ToggleTheme_render (setSystemTheme prefersDark s)"

definition set_icons :: "js_string \<Rightarrow> js_string \<Rightarrow> ToggleTheme \<Rightarrow> ToggleTheme" where
  "set_icons moon sun s =
     (if rendered s then s\<lparr>icon_moon_active := Some moon, icon_sun_active := Some sun\<rparr> else s)"

definition handleIconClick :: "event \<Rightarrow> ToggleTheme \<Rightarrow> ToggleTheme" where
  "handleIconClick e s =
     (let s1 = (if detail_id e = Some (utf16 ''moon'')
                then (set_icons (utf16 ''false'') (utf16 ''true'') s)
                       \<lparr>data_theme := Some (utf16 ''dark'')\<rparr>
                else s)
      in if detail_id e = Some (utf16 ''sun'')
         then (set_icons (utf16 ''true'') (utf16 ''false'') s1)
                \<lparr>data_theme := Some (utf16 ''light'')\<rparr>
         else s1)"

definition ToggleTheme_handleEvent :: "event \<Rightarrow> ToggleTheme \<Rightarrow> ToggleTheme" where
  "ToggleTheme_handleEvent e s =
     (if ev_type e = utf16 ''clicked-sun'' then handleIconClick e s
      else if ev_type e = utf16 ''clicked-moon'' then handleIconClick e s
      else s)"

text \<open>The events that \<open>icon-sun\<close> and \<open>icon-moon\<close> dispatch when clicked.\<close>

definition clicked_sun :: event where
  "clicked_sun = \<lparr>ev_type = utf16 ''clicked-sun'', detail_id = Some (utf16 ''sun''), detail_text = None\<rparr>"

definition clicked_moon :: event where
  "clicked_moon = \<lparr>ev_type = utf16 ''clicked-moon'', detail_id = Some (utf16 ''moon''), detail_text = None\<rparr>"

fun ToggleTheme_deliver :: "event list \<Rightarrow> ToggleTheme \<Rightarrow> ToggleTheme" where
  "ToggleTheme_deliver [] s = s"
| "ToggleTheme_deliver (e # es) s = ToggleTheme_deliver es (ToggleTheme_handleEvent e s)"

text \<open>
  The property of C5: exactly one of the two icons has \<open>data-active\<close> equal to \<open>"true"\<close>; it is
  the sun when the theme is \<open>"dark"\<close> and the moon when the theme is \<open>"light"\<close>.
\<close>

definition sun_active :: "ToggleTheme \<Rightarrow> bool" where
  "sun_active s = (icon_sun_active s = Some (utf16 ''true''))"

definition moon_active :: "ToggleTheme \<Rightarrow> bool" where
  "moon_active s = (icon_moon_active s = Some (utf16 ''true''))"

definition one_icon_opposite_theme :: "ToggleTheme \<Rightarrow> bool" where
  "one_icon_opposite_theme s =
     (sun_active s \<noteq> moon_active s
      \<and> (if data_theme s = Some (utf16 ''dark'') then sun_active s
         else if data_theme s = Some (utf16 ''light'') then moon_active s
         else True))"

text \<open>
  The values that the specification gives \<open>data-theme\<close>: \<open>"light"\<close> and \<open>"dark"\<close>, or no
  attribute yet.
\<close>

definition theme_value :: "js_string option \<Rightarrow> bool" where
  "theme_value t = (t = None \<or> t = Some (utf16 ''light'') \<or> t = Some (utf16 ''dark''))"

definition icon_click :: "event \<Rightarrow> bool" where
  "icon_click e = (e = clicked_sun \<or> e = clicked_moon)"

section \<open>The icon loader (iconThemeAware.js, lines 1-378)\<close>

subsection \<open>The platform\<close>

text \<open>
  A blob is its bytes. A fetch is rejected (a request error), or it answers with a
  response that is ok or not and has a body. \<open>World\<close> is what the loader reads and changes
  outside itself: the \<open>data-theme\<close> attribute of the document element, the answer of the
  colour-scheme media query, whether \<open>caches.open\<close> resolves, the answer of the network to
  each URI, whether \<open>cache.put\<close> resolves for a URI, the entries of the opened cache, and
  the trace of the calls made so far.
\<close>

type_synonym blob = "8 word list"

datatype fetch_result = Rejected | Responded bool blob

datatype effect =
  Fetch js_string | CachePut js_string | CacheMatch js_string
  | ConsoleLog | ConsoleWarn | ConsoleError

record World =
  doc_theme :: "js_string option"
  prefers_dark :: bool
  caches_open :: bool
  network :: "js_string \<Rightarrow> fetch_result"
  put_resolves :: "js_string \<Rightarrow> bool"
  cache :: "js_string \<Rightarrow> blob option"
  effects :: "effect list"

definition perform :: "effect \<Rightarrow> World \<Rightarrow> World" where
  "perform x w = w\<lparr>effects := effects w @ [x]\<rparr>"

subsection \<open>The element\<close>

text \<open>An \<open>img\<close> element of the icon container; \<open>img_src\<close> is the blob its object URL names.\<close>

record Img =
  img_width :: int
  img_height :: int
  img_src :: blob
  img_alt :: js_string

text \<open>
  The attributes of the element, its fields (\<open>None\<close> is \<open>undefined\<close> or \<open>null\<close>), the children
  of \<open>#icon-container\<close> (\<open>None\<close> while the shadow root has no container), whether the
  mutation observer is registered, and how many mutation records wait for delivery.
\<close>

record IconThemeAware =
  attr_data_height :: "js_string option"
  attr_data_width :: "js_string option"
  attr_data_src_light :: "js_string option"
  attr_data_src_dark :: "js_string option"
  currentTheme :: "js_string option"
  iconLight :: "blob option"
  iconDark :: "blob option"
  iconHeight :: "int option"
  iconWidth :: "int option"
  srcLight :: "js_string option"
  srcDark :: "js_string option"
  icon_container :: "Img list option"
  observer :: bool
  pending :: nat

definition IconThemeAware_render :: "IconThemeAware \<Rightarrow> IconThemeAware" where
  "IconThemeAware_render s = s\<lparr>icon_container := Some []\<rparr>"

definition getDimensionAttribute :: "js_string option \<Rightarrow> int \<Rightarrow> int" where
  "getDimensionAttribute attr fallback =
     (case attr of
        None \<Rightarrow> fallback
      | Some a \<Rightarrow> (case parseInt a of None \<Rightarrow> fallback | Some v \<Rightarrow> v))"

definition getSystemTheme :: "World \<Rightarrow> js_string \<times> World" where
  "getSystemTheme w =
     (case doc_theme w of
        Some theme \<Rightarrow> (theme, w)
      | None \<Rightarrow>
          (let theme = (if prefers_dark w then utf16 ''dark'' else utf16 ''light'')
           in (theme, w\<lparr>doc_theme := Some theme\<rparr>)))"

text \<open>\<open>getCacheItem\<close>, which \<open>getIcon\<close> returns the result of; \<open>cacheOK\<close> is the truth of the cache.\<close>

definition getCacheItem :: "bool \<Rightarrow> js_string option \<Rightarrow> World \<Rightarrow> blob option \<times> World" where
  "getCacheItem cacheOK key w =
     (if \<not> cacheOK then (None, w)
      else case key of
             None \<Rightarrow> (None, w)
           | Some k \<Rightarrow> (cache w k, perform (CacheMatch k) w))"

definition getIcon :: "bool \<Rightarrow> js_string option \<Rightarrow> World \<Rightarrow> blob option \<times> World" where
  "getIcon cacheOK iconSrc w = getCacheItem cacheOK iconSrc w"

text \<open>
  The \<open>try\<close> block of \<open>fetchIcon\<close>: \<open>Inl\<close> is the error thrown inside it (a rejected fetch, the
  error thrown for a response that is not ok, a rejected \<open>cache.put\<close>).
\<close>

definition fetchIcon_try :: "js_string \<Rightarrow> World \<Rightarrow> (js_error + blob) \<times> World" where
  "fetchIcon_try iconSrc w =
     (let w1 = perform (Fetch iconSrc) w
      in case network w iconSrc of
           Rejected \<Rightarrow> (Inl (TypeError (utf16 ''Failed to fetch'')), w1)
         | Responded ok body \<Rightarrow>
             if \<not> ok then (Inl (Error (utf16 ''Failed to fetch icon'')), w1)
             else (let w2 = perform (CachePut iconSrc) w1
                   in if put_resolves w iconSrc
                      then (Inr body, w2\<lparr>cache := (cache w2)(iconSrc := Some body)\<rparr>)
                      else (Inl (Error (utf16 ''cache.put rejected'')), w2)))"

definition fetchIcon :: "js_string option \<Rightarrow> bool \<Rightarrow> World \<Rightarrow> blob option \<times> World" where
  "fetchIcon iconSrc cacheOK w =
     (let w0 = perform ConsoleLog w
      in case iconSrc of
           None \<Rightarrow> (None, perform ConsoleWarn w0)
         | Some src \<Rightarrow>
             if src = [] \<or> \<not> cacheOK then (None, perform ConsoleWarn w0)
             else (case fetchIcon_try src w0 of
                     (Inl error, w') \<Rightarrow> (None, perform ConsoleError w')
                   | (Inr b, w') \<Rightarrow> (Some b, w')))"

text \<open>
  \<open>insertIcon\<close>. The light image takes the width and height passed in, the dark image the
  fields \<open>iconWidth\<close> and \<open>iconHeight\<close>.
\<close>

definition append_img :: "Img \<Rightarrow> IconThemeAware \<Rightarrow> IconThemeAware" where
  "append_img img s =
     s\<lparr>icon_container := map_option (\<lambda>imgs. imgs @ [img]) (icon_container s)\<rparr>"

definition insert_light :: "int \<Rightarrow> int \<Rightarrow> js_string \<Rightarrow> IconThemeAware \<Rightarrow> js_error + IconThemeAware" where
  "insert_light height width theme s =
     (if theme = utf16 ''light'' then
        (case iconLight s of
           None \<Rightarrow> Inr s
         | Some b \<Rightarrow>
             if iconWidth s = None \<or> iconHeight s = None
             then Inl (Error (utf16 ''iconWidth and iconHeight must be set before calling insertIcon''))
             else Inr (append_img \<lparr>img_width = width, img_height = height, img_src = b,
                                   img_alt = utf16 ''Light Icon''\<rparr> s))
      else Inr s)"

definition insert_dark :: "js_string \<Rightarrow> IconThemeAware \<Rightarrow> js_error + IconThemeAware" where
  "insert_dark theme s =
     (if theme = utf16 ''dark'' then
        (case iconDark s of
           None \<Rightarrow> Inr s
         | Some b \<Rightarrow>
             (case (iconWidth s, iconHeight s) of
                (Some w, Some h) \<Rightarrow>
                  Inr (append_img \<lparr>img_width = w, img_height = h, img_src = b,
                                    img_alt = utf16 ''Dark Icon''\<rparr> s)
              | _ \<Rightarrow>
                  Inl (Error (utf16 ''iconWidth and iconHeight must be set before calling insertIcon''))))
      else Inr s)"

definition insertIcon :: "int \<Rightarrow> int \<Rightarrow> js_string \<Rightarrow> IconThemeAware \<Rightarrow> js_error + IconThemeAware" where
  "insertIcon height width theme s =
     (case icon_container s of
        None \<Rightarrow> Inr s
      | Some container \<Rightarrow>
          (case insert_light height width theme (s\<lparr>icon_container := Some []\<rparr>) of
             Inl error \<Rightarrow> Inl error
           | Inr s1 \<Rightarrow> insert_dark theme s1))"

definition observeAttributes :: "IconThemeAware \<Rightarrow> IconThemeAware" where
  "observeAttributes s = s\<lparr>observer := True\<rparr>"

text \<open>
  \<open>hydrate\<close>, with \<open>initVariables\<close> and \<open>initIcons\<close> in it. An error that it throws rejects its
  promise.
\<close>

definition initVariables :: "IconThemeAware \<Rightarrow> World \<Rightarrow> js_error + (IconThemeAware \<times> World)" where
  "initVariables s w =
     (let (theme, w1) = getSystemTheme w;
          s1 = s\<lparr>currentTheme := Some theme, iconLight := None, iconDark := None,
                 iconHeight := Some (getDimensionAttribute (attr_data_height s) 64),
                 iconWidth := Some (getDimensionAttribute (attr_data_width s) 64),
                 srcLight := attr_data_src_light s, srcDark := attr_data_src_dark s\<rparr>
      in if caches_open w1 then Inr (s1, w1)
         else Inl (Error (utf16 ''caches.open rejected'')))"

definition falsy :: "js_string option \<Rightarrow> bool" where
  "falsy v = (v = None \<or> v = Some [])"

definition initIcons :: "IconThemeAware \<Rightarrow> World \<Rightarrow> IconThemeAware \<times> World" where
  "initIcons s w =
     (let (l, w1) = getIcon True (srcLight s) w;
          (d, w2) = getIcon True (srcDark s) w1
      in (s\<lparr>iconLight := l, iconDark := d\<rparr>, w2))"

definition fetch_missing :: "IconThemeAware \<Rightarrow> World \<Rightarrow> IconThemeAware \<times> World" where
  "fetch_missing s w =
     (let (s1, w1) = (case iconLight s of
                        None \<Rightarrow> (let (b, w') = fetchIcon (srcLight s) True w
                                 in (s\<lparr>iconLight := b\<rparr>, w'))
                      | Some b \<Rightarrow> (s, w))
      in case iconDark s1 of
           None \<Rightarrow> (let (b, w') = fetchIcon (srcDark s1) True w1
                    in (s1\<lparr>iconDark := b\<rparr>, w'))
         | Some b \<Rightarrow> (s1, w1))"

definition IconThemeAware_hydrate :: "IconThemeAware \<Rightarrow> World \<Rightarrow> js_error + (IconThemeAware \<times> World)" where
  "IconThemeAware_hydrate s w =
     (case initVariables s w of
        Inl error \<Rightarrow> Inl error
      | Inr (s1, w1) \<Rightarrow>
          if falsy (srcLight s1) \<or> falsy (srcDark s1)
          then Inl (Error (utf16 ''Missing icon source(s): srcLight or srcDark is null''))
          else (let (s2, w2) = initIcons s1 w1;
                    (s3, w3) = fetch_missing s2 w2
                in case (iconWidth s3, iconHeight s3) of
                     (Some width, Some height) \<Rightarrow>
                       (case currentTheme s3 of
                          None \<Rightarrow> Inl (Error (utf16 ''currentTheme must be set before calling insertIcon''))
                        | Some theme \<Rightarrow>
                            (case insertIcon height width theme s3 of
                               Inl error \<Rightarrow> Inl error
                             | Inr s4 \<Rightarrow> Inr (observeAttributes s4, w3)))
                   | _ \<Rightarrow> Inl (Error (utf16 ''iconWidth and iconHeight must be set before calling insertIcon''))))"

definition IconThemeAware_connectedCallback ::
  "IconThemeAware \<Rightarrow> World \<Rightarrow> js_error + (IconThemeAware \<times> World)" where
  "IconThemeAware_connectedCallback s w = IconThemeAware_hydrate (IconThemeAware_render s) w"

text \<open>
  The callback of the mutation observer, once for each record of the list it is given;
  every record of this observer has the type \<open>attributes\<close>. It reads the \<open>data-theme\<close> that the
  document has when it runs.
\<close>

definition on_mutation :: "World \<Rightarrow> IconThemeAware \<Rightarrow> js_error + IconThemeAware" where
  "on_mutation w s =
     (let theme = doc_theme w;
          s1 = (if currentTheme s \<noteq> None \<and> theme \<noteq> None then s\<lparr>currentTheme := theme\<rparr> else s)
      in if theme = Some (utf16 ''light'') \<or> theme = Some (utf16 ''dark'') then
           (case (iconHeight s1, iconWidth s1, currentTheme s1) of
              (Some height, Some width, Some current) \<Rightarrow> insertIcon height width current s1
            | _ \<Rightarrow> Inr s1)
         else Inr s1)"

fun observer_callback :: "nat \<Rightarrow> World \<Rightarrow> IconThemeAware \<Rightarrow> js_error + IconThemeAware" where
  "observer_callback 0 w s = Inr s"
| "observer_callback (Suc n) w s =
     (case on_mutation w s of
        Inl error \<Rightarrow> Inl error
      | Inr s1 \<Rightarrow> observer_callback n w s1)"

text \<open>
  What happens to the page after the loader is ready: the \<open>data-theme\<close> attribute is written
  or removed, which queues a record for a registered observer; and the queued records are
  delivered to the callback.
\<close>

datatype page_step = SetTheme "js_string option" | Deliver

definition page_step ::
  "page_step \<Rightarrow> IconThemeAware \<times> World \<Rightarrow> js_error + (IconThemeAware \<times> World)" where
  "page_step x sw =
     (case sw of (s, w) \<Rightarrow>
        (case x of
           SetTheme t \<Rightarrow>
             Inr (if observer s then s\<lparr>pending := Suc (pending s)\<rparr> else s, w\<lparr>doc_theme := t\<rparr>)
         | Deliver \<Rightarrow>
             (case observer_callback (pending s) w (s\<lparr>pending := 0\<rparr>) of
                Inl error \<Rightarrow> Inl error
              | Inr s1 \<Rightarrow> Inr (s1, w))))"

fun page_steps ::
  "page_step list \<Rightarrow> IconThemeAware \<times> World \<Rightarrow> js_error + (IconThemeAware \<times> World)" where
  "page_steps [] sw = Inr sw"
| "page_steps (x # xs) sw =
     (case page_step x sw of
        Inl error \<Rightarrow> Inl error
      | Inr sw1 \<Rightarrow> page_steps xs sw1)"

subsection \<open>Notions for the properties\<close>

text \<open>The fetch of a URI fails: the request is rejected, or the response is not ok.\<close>

definition fetch_fails :: "World \<Rightarrow> js_string \<Rightarrow> bool" where
  "fetch_fails w src = (case network w src of Rejected \<Rightarrow> True | Responded ok body \<Rightarrow> \<not> ok)"

text \<open>
  What holds of a loader that is ready: its dimensions are numbers, and every image in its
  container shows one of the two variants it holds.
\<close>

definition dimensions_set :: "IconThemeAware \<Rightarrow> bool" where
  "dimensions_set s = (iconWidth s \<noteq> None \<and> iconHeight s \<noteq> None)"

definition shows_held :: "IconThemeAware \<Rightarrow> bool" where
  "shows_held s =
     (case icon_container s of
        None \<Rightarrow> True
      | Some imgs \<Rightarrow>
          list_all (\<lambda>img. Some (img_src img) = iconLight s \<or> Some (img_src img) = iconDark s) imgs)"

text \<open>Two states of the loader hold the same variants, dimensions and observer.\<close>

definition same_variants :: "IconThemeAware \<Rightarrow> IconThemeAware \<Rightarrow> bool" where
  "same_variants s s' =
     (iconLight s' = iconLight s \<and> iconDark s' = iconDark s
      \<and> iconWidth s' = iconWidth s \<and> iconHeight s' = iconHeight s
      \<and> observer s' = observer s)"

subsection \<open>An example page\<close>

text \<open>
  An element with both sources, on a page in the light theme where both icons can be
  fetched and the cache is empty; the loader and the page once the loader is ready.
\<close>

definition example_icon :: IconThemeAware where
  "example_icon =
     \<lparr>attr_data_height = Some (utf16 ''32''), attr_data_width = None,
      attr_data_src_light = Some (utf16 ''/sun.svg''),
      attr_data_src_dark = Some (utf16 ''/moon.svg''),
      currentTheme = None, iconLight = None, iconDark = None,
      iconHeight = None, iconWidth = None, srcLight = None, srcDark = None,
      icon_container = None, observer = False, pending = 0\<rparr>"

definition example_world :: World where
  "example_world =
     \<lparr>doc_theme = Some (utf16 ''light''), prefers_dark = False, caches_open = True,
      network = (\<lambda>u. if u = utf16 ''/sun.svg'' then Responded True [1]
                     else if u = utf16 ''/moon.svg'' then Responded True [2]
                     else Rejected),
      put_resolves = (\<lambda>u. True),
      cache = (\<lambda>u. None),
      effects = []\<rparr>"

definition ready_icon :: IconThemeAware where
  "ready_icon =
     example_icon
       \<lparr>currentTheme := Some (utf16 ''light''), iconLight := Some [1], iconDark := Some [2],
        iconHeight := Some 32, iconWidth := Some 64,
        srcLight := Some (utf16 ''/sun.svg''), srcDark := Some (utf16 ''/moon.svg''),
        icon_container := Some [\<lparr>img_width = 64, img_height = 32, img_src = [1],
                                  img_alt = utf16 ''Light Icon''\<rparr>],
        observer := True\<rparr>"

definition ready_world :: World where
  "ready_world =
     example_world
       \<lparr>cache := (\<lambda>u. None)(utf16 ''/sun.svg'' := Some [1], utf16 ''/moon.svg'' := Some [2]),
        effects := [CacheMatch (utf16 ''/sun.svg''), CacheMatch (utf16 ''/moon.svg''),
                    ConsoleLog, Fetch (utf16 ''/sun.svg''), CachePut (utf16 ''/sun.svg''),
                    ConsoleLog, Fetch (utf16 ''/moon.svg''), CachePut (utf16 ''/moon.svg'')]\<rparr>"

text \<open>The same page with the light icon unreachable.\<close>

definition offline_world :: World where
  "offline_world =
     example_world
       \<lparr>network := (\<lambda>u. if u = utf16 ''/moon.svg'' then Responded True [2] else Rejected)\<rparr>"

section \<open>Properties of numbers and strings\<close>

lemmas js_eval = utf16_def Number_toString_def digits.simps digit_def trim_def is_ws_def
  parseInt_def parse_digits_def digits_value_def digit_value_def is_digit_def
  String_of_number_def template_string_def

lemma digit_cases: "d < 10 \<Longrightarrow> d \<in> {0, 1, 2, 3, 4, 5, 6, 7, 8, 9 :: nat}"
  by auto

lemma digit_props:
  assumes "d < 10"
  shows "is_digit (digit d)" "\<not> is_ws (digit d)" "digit_value (digit d) = d"
    "digit d \<noteq> 0x2D" "digit d \<noteq> 0x2B"
  using digit_cases [OF assms]
  by (auto simp: is_digit_def is_ws_def digit_def digit_value_def)

lemma digits_all: "c \<in> set (digits n) \<Longrightarrow> \<exists>d<10. c = digit d"
proof (induction n rule: digits.induct)
  case (1 n)
  show ?case
  proof (cases "n < 10")
    case True
    with "1.prems" show ?thesis by (auto simp: digits.simps [of n])
  next
    case False
    with "1.prems" "1.IH" show ?thesis
      by (auto simp: digits.simps [of n]) (metis mod_less_divisor zero_less_numeral)
  qed
qed

lemma digits_nonempty: "digits n \<noteq> []"
  by (subst digits.simps) simp

lemma digits_value_digits: "digits_value (digits n) = n"
proof (induction n rule: digits.induct)
  case (1 n)
  show ?case
  proof (cases "n < 10")
    case True
    then show ?thesis by (simp add: digits.simps [of n] digit_props digits_value_def)
  next
    case False
    then have "n mod 10 < 10" by simp
    with False "1.IH" show ?thesis
      by (simp add: digits.simps [of n] digit_props digits_value_def)
  qed
qed

lemma takeWhile_digits: "takeWhile is_digit (digits n) = digits n"
  using digits_all digit_props(1) by (fastforce simp: takeWhile_eq_all_conv)

lemma parse_digits_digits:
  "parse_digits neg (digits n) = Some (if neg then - int n else int n)"
  by (simp add: parse_digits_def takeWhile_digits digits_nonempty digits_value_digits)

lemma hd_digits: "\<exists>d r. d < 10 \<and> digits n = digit d # r"
  using digits_all [of "hd (digits n)" n] digits_nonempty [of n]
  by (cases "digits n") auto

lemma parseInt_digits: "parseInt (digits n) = Some (int n)"
proof -
  obtain d r where d: "d < 10" and r: "digits n = digit d # r"
    using hd_digits by blast
  have "parse_digits False (digit d # r) = Some (int n)"
    using parse_digits_digits [of False n] r by simp
  then show ?thesis
    using d digit_props [OF d] by (simp add: parseInt_def r)
qed

text \<open>Reading back the rendering of an integer gives the integer.\<close>

lemma parseInt_Number_toString: "parseInt (Number_toString n) = Some n"
proof (cases "n < 0")
  case False
  then show ?thesis by (simp add: Number_toString_def parseInt_digits)
next
  case True
  have m: "\<not> is_ws 0x2D" by (simp add: is_ws_def)
  have "parseInt (0x2D # digits (nat (- n))) = Some (- int (nat (- n)))"
    using m by (simp add: parseInt_def parse_digits_digits)
  with True show ?thesis by (simp add: Number_toString_def utf16_def)
qed

lemma selector_plain_digit:
  "d < 10 \<Longrightarrow>
     digit d \<noteq> 0x22 \<and> digit d \<noteq> 0x5C \<and> digit d \<noteq> 0xA \<and> digit d \<noteq> 0xC \<and> digit d \<noteq> 0xD"
  using digit_cases [of d] by (auto simp: digit_def)

text \<open>Every identifier that the submit listener makes is taken literally by the selector.\<close>

lemma selector_plain_Number_toString: "selector_plain (Number_toString n)"
proof -
  have "list_all (\<lambda>c. c \<noteq> 0x22 \<and> c \<noteq> 0x5C \<and> c \<noteq> 0xA \<and> c \<noteq> 0xC \<and> c \<noteq> 0xD) (digits m)" for m
    unfolding list_all_iff
  proof
    fix c assume "c \<in> set (digits m)"
    then obtain d where "d < 10" and "c = digit d" using digits_all by blast
    then show "c \<noteq> 0x22 \<and> c \<noteq> 0x5C \<and> c \<noteq> 0xA \<and> c \<noteq> 0xC \<and> c \<noteq> 0xD"
      using selector_plain_digit by simp
  qed
  then show ?thesis
    by (simp add: selector_plain_def Number_toString_def utf16_def)
qed

section \<open>Properties of the counter\<close>

lemma increment_neq_decrement: "utf16 ''increment'' \<noteq> utf16 ''decrement''"
  by (simp add: utf16_def)

lemma handleEvent_rendered:
  assumes "shadow_count_total r = Some ct"
  shows "\<exists>r' ct'. CounterRoot_handleEvent e r = Inr r'
           \<and> shadow_count_total r' = Some ct'
           \<and> attr_count ct' = Some (Number_toString (count r'))
           \<and> span ct' = Number_toString (count r')
           \<and> count r' = count r + net_sum [e]"
  using assms increment_neq_decrement
  by (simp add: CounterRoot_handleEvent_def update_def CountTotal_setAttribute_def
      attributeChangedCallback_def CountTotal_render_def net_sum_def)

lemma net_sum_Cons: "net_sum (e # es) = net_sum [e] + net_sum es"
  by (simp add: net_sum_def)

lemma deliver_rendered:
  assumes "shadow_count_total r = Some ct"
    and "attr_count ct = Some (Number_toString (count r))"
    and "span ct = Number_toString (count r)"
  shows "\<exists>r' ct'. CounterRoot_deliver es r = Inr r'
           \<and> shadow_count_total r' = Some ct'
           \<and> attr_count ct' = Some (Number_toString (count r'))
           \<and> span ct' = Number_toString (count r')
           \<and> count r' = count r + net_sum es"
  using assms
proof (induction es arbitrary: r ct)
  case Nil
  then show ?case by (simp add: net_sum_def)
next
  case (Cons e es)
  from handleEvent_rendered [OF Cons.prems(1), of e]
  obtain r1 ct1 where step: "CounterRoot_handleEvent e r = Inr r1"
    and sh: "shadow_count_total r1 = Some ct1"
    and at: "attr_count ct1 = Some (Number_toString (count r1))"
    and sp: "span ct1 = Number_toString (count r1)"
    and cn: "count r1 = count r + net_sum [e]"
    by blast
  from Cons.IH [OF sh at sp]
  obtain r' ct' where run: "CounterRoot_deliver es r1 = Inr r'"
    and sh': "shadow_count_total r' = Some ct'"
    and at': "attr_count ct' = Some (Number_toString (count r'))"
    and sp': "span ct' = Number_toString (count r')"
    and cn': "count r' = count r1 + net_sum es"
    by blast
  have "count r' = count r + net_sum (e # es)"
    using cn cn' net_sum_Cons [of e es] by simp
  with step run sh' at' sp' show ?case by simp
qed

text \<open>
  C1. From the connected counter (constructed with count 0, then rendered and hydrated),
  delivering any finite sequence of events to \<open>handleEvent\<close> raises no error and leaves the
  \<open>count\<close> attribute of the \<open>count-total\<close> child, and the text it displays, equal to the
  decimal rendering of the number of increment events minus the number of decrement
  events; the total may be negative.
\<close>

theorem counter_total_is_net_sum:
  "\<exists>r0 r ct.
     CounterRoot_connectedCallback CounterRoot_constructor = Inr r0
     \<and> CounterRoot_deliver es r0 = Inr r
     \<and> count r = net_sum es
     \<and> shadow_count_total r = Some ct
     \<and> attr_count ct = Some (Number_toString (net_sum es))
     \<and> span ct = Number_toString (net_sum es)"
proof -
  define r0 where "r0 = CounterRoot_render CounterRoot_constructor"
  define ct0 where "ct0 = CountTotal_render \<lparr>attr_count = Some (Number_toString 0), span = []\<rparr>"
  have sh0: "shadow_count_total r0 = Some ct0"
    by (simp add: r0_def ct0_def CounterRoot_render_def CounterRoot_constructor_def)
  have c0: "count r0 = 0"
    by (simp add: r0_def CounterRoot_render_def CounterRoot_constructor_def)
  have conn: "CounterRoot_connectedCallback CounterRoot_constructor = Inr r0"
    using sh0 by (simp add: CounterRoot_connectedCallback_def CounterRoot_hydrate_def r0_def)
  have at0: "attr_count ct0 = Some (Number_toString (count r0))"
    by (simp add: c0 ct0_def CountTotal_render_def)
  have sp0: "span ct0 = Number_toString (count r0)"
    by (simp add: c0 ct0_def CountTotal_render_def)
  from deliver_rendered [OF sh0 at0 sp0, of es] c0 conn show ?thesis
    by auto
qed

text \<open>Two increments and three decrements: the total shown is \<open>-1\<close>.\<close>

lemma counter_example_negative:
  "map_sum id (map_option span \<circ> shadow_count_total)
     (case CounterRoot_connectedCallback CounterRoot_constructor of
        Inl err \<Rightarrow> Inl err
      | Inr r0 \<Rightarrow>
          CounterRoot_deliver
            [Event (utf16 ''increment''), Event (utf16 ''decrement''), Event (utf16 ''decrement''),
             Event (utf16 ''increment''), Event (utf16 ''decrement'')] r0)
   = Inr (Some (utf16 ''-1''))"
  by (simp add: CounterRoot_connectedCallback_def CounterRoot_hydrate_def CounterRoot_render_def
      CounterRoot_constructor_def CountTotal_render_def CounterRoot_handleEvent_def update_def
      CountTotal_setAttribute_def attributeChangedCallback_def Event_def js_eval)

section \<open>Properties of the todo list\<close>

lemmas todo_eval = TodoComponent_connected_def submit_def enter_text_def submit_listener_def
  TodoComponent_handleEvent_def createListItem_def appendTodoItem_def
  querySelector_todo_item_def todoInput_update_def incrementCount_def decrementCount_def
  deleteListItem_def removeTodoItem_def entries_def

lemma submit_neq_delete: "utf16 ''todo-item-delete'' \<noteq> utf16 ''todo-input-submit''"
  by (simp add: utf16_def)

lemma entries_addEventListener_first:
  "map (\<lambda>it. (attr_id it, attr_text it)) (addEventListener_first i items)
   = map (\<lambda>it. (attr_id it, attr_text it)) items"
  by (induction items) auto

lemma entries_appendTodoItem: "entries (appendTodoItem tid s) = entries s"
  by (simp add: appendTodoItem_def entries_def entries_addEventListener_first
      split: option.splits)

lemma count_text_appendTodoItem: "count_text (appendTodoItem tid s) = count_text s"
  by (simp add: appendTodoItem_def split: option.splits)

lemma handleEvent_submit:
  assumes "ev_type e = utf16 ''todo-input-submit''"
    and "parseInt (count_text s) = Some c"
  shows "entries (TodoComponent_handleEvent e s)
           = entries s @ [(template_string (detail_id e), template_string (detail_text e))]"
    and "count_text (TodoComponent_handleEvent e s) = Number_toString (c + 1)"
    and "input_value (TodoComponent_handleEvent e s) = []"
proof -
  let ?s1 = "createListItem (detail_text e) (detail_id e) s"
  have e1: "entries ?s1
      = entries s @ [(template_string (detail_id e), template_string (detail_text e))]"
    by (simp add: createListItem_def entries_def)
  have c1: "count_text ?s1 = count_text s"
    by (simp add: createListItem_def)
  have h: "TodoComponent_handleEvent e s
      = incrementCount (todoInput_update (appendTodoItem (detail_id e) ?s1))"
    using assms(1) by (simp add: TodoComponent_handleEvent_def)
  show "entries (TodoComponent_handleEvent e s)
           = entries s @ [(template_string (detail_id e), template_string (detail_text e))]"
    using e1 entries_appendTodoItem [of "detail_id e" ?s1]
    by (simp add: h incrementCount_def todoInput_update_def entries_def)
  show "count_text (TodoComponent_handleEvent e s) = Number_toString (c + 1)"
    using c1 assms(2) count_text_appendTodoItem [of "detail_id e" ?s1]
    by (simp add: h incrementCount_def todoInput_update_def String_of_number_def)
  show "input_value (TodoComponent_handleEvent e s) = []"
    by (simp add: h incrementCount_def todoInput_update_def)
qed

lemma submit_listener_cases:
  "submit_listener now raw =
     (case raw of
        None \<Rightarrow> None
      | Some r \<Rightarrow>
          if trim r = [] then None
          else Some \<lparr>ev_type = utf16 ''todo-input-submit'',
                     detail_id = Some (Number_toString now), detail_text = Some (trim r)\<rparr>)"
  by (simp add: submit_listener_def Let_def split: option.splits)

text \<open>
  C2, as the code has it. Let the counter display a number \<open>c\<close>. A submit whose text is
  empty after trimming changes nothing (the text stays in the field). Any other submit
  appends exactly one entry, holding the trimmed text and, as identifier, the decimal
  rendering of the clock reading \<open>Date.now()\<close> of the submit, and the counter displays
  \<open>c + 1\<close>. The identifier read as a number is the clock reading: it exceeds the earlier
  identifiers exactly when the clock reading exceeds the earlier readings.
\<close>

theorem todo_submit_appends_one:
  assumes "parseInt (count_text s) = Some c"
  shows "if trim raw = []
         then submit now (enter_text raw s) = enter_text raw s
         else entries (submit now (enter_text raw s))
                = entries s @ [(Number_toString now, trim raw)]
              \<and> parseInt (Number_toString now) = Some now
              \<and> count_text (submit now (enter_text raw s)) = Number_toString (c + 1)"
proof (cases "trim raw = []")
  case True
  then show ?thesis
    by (simp add: submit_def enter_text_def submit_listener_cases)
next
  case False
  let ?e = "\<lparr>ev_type = utf16 ''todo-input-submit'',
             detail_id = Some (Number_toString now), detail_text = Some (trim raw)\<rparr>"
  have s: "submit now (enter_text raw s) = TodoComponent_handleEvent ?e (enter_text raw s)"
    using False by (simp add: submit_def enter_text_def submit_listener_cases)
  have c: "parseInt (count_text (enter_text raw s)) = Some c"
    using assms by (simp add: enter_text_def)
  have t: "ev_type ?e = utf16 ''todo-input-submit''" by simp
  have en: "entries (enter_text raw s) = entries s"
    by (simp add: enter_text_def entries_def)
  from handleEvent_submit(1,2) [OF t c] en False show ?thesis
    by (simp add: s template_string_def parseInt_Number_toString)
qed

theorem todo_submit_appends_one_witness:
  "parseInt (count_text TodoComponent_connected) = Some 0
   \<and> trim (utf16 '' buy milk  '') = utf16 ''buy milk''
   \<and> entries (submit 1700000000000 (enter_text (utf16 '' buy milk  '') TodoComponent_connected))
       = [(utf16 ''1700000000000'', utf16 ''buy milk'')]
   \<and> count_text (submit 1700000000000 (enter_text (utf16 '' buy milk  '') TodoComponent_connected))
       = utf16 ''1''
   \<and> trim (utf16 ''   '') = []
   \<and> submit 1700000000000 (enter_text (utf16 ''   '') TodoComponent_connected)
       = enter_text (utf16 ''   '') TodoComponent_connected"
proof -
  have c: "parseInt (count_text TodoComponent_connected) = Some 0"
    by (simp add: TodoComponent_connected_def js_eval)
  have t1: "trim (utf16 '' buy milk  '') = utf16 ''buy milk''" by (simp add: js_eval)
  have t2: "trim (utf16 ''   '') = []" by (simp add: js_eval)
  have n: "Number_toString 1700000000000 = utf16 ''1700000000000''" by (simp add: js_eval)
  have n1: "Number_toString 1 = utf16 ''1''" by (simp add: js_eval)
  have e: "entries TodoComponent_connected = []"
    by (simp add: entries_def TodoComponent_connected_def)
  from todo_submit_appends_one [OF c, of "utf16 '' buy milk  ''" 1700000000000]
    todo_submit_appends_one [OF c, of "utf16 ''   ''" 1700000000000]
  show ?thesis
    unfolding t1 t2 n e using c n1 by (simp add: utf16_def)
qed

text \<open>
  Two submits at the same clock reading (two submits within one millisecond, or a clock
  that was set back) give two entries with the same identifier: the second identifier is
  not greater than the first.
\<close>

theorem todo_submit_same_clock_counterexample:
  "map attr_id (listUl
      (submit 1700000000000 (enter_text (utf16 ''b'')
        (submit 1700000000000 (enter_text (utf16 ''a'') TodoComponent_connected)))))
     = [utf16 ''1700000000000'', utf16 ''1700000000000'']
   \<and> \<not> newest_id_exceeds_previous
      (submit 1700000000000 (enter_text (utf16 ''b'')
        (submit 1700000000000 (enter_text (utf16 ''a'') TodoComponent_connected))))"
  by (simp add: newest_id_exceeds_previous_def todo_eval js_eval)

text \<open>
  C9. Whatever the form holds, the submit listener either dispatches nothing, or it
  dispatches one \<open>todo-input-submit\<close> event whose text is the entered text with the white
  space at both ends removed, and that text is not empty.
\<close>

theorem submit_event_text_trimmed_nonempty:
  "submit_listener now raw = None
   \<or> (\<exists>r. raw = Some r \<and> trim r \<noteq> []
         \<and> submit_listener now raw
             = Some \<lparr>ev_type = utf16 ''todo-input-submit'',
                     detail_id = Some (Number_toString now), detail_text = Some (trim r)\<rparr>)"
proof (cases raw)
  case None
  then show ?thesis by (simp add: submit_listener_cases)
next
  case (Some r)
  show ?thesis
  proof (cases "trim r = []")
    case True
    with Some show ?thesis by (simp add: submit_listener_cases)
  next
    case False
    with Some show ?thesis by (simp add: submit_listener_cases)
  qed
qed

lemma remove_first_absent:
  "list_all (\<lambda>it. attr_id it \<noteq> i) items \<Longrightarrow> remove_first i items = items"
  by (induction items) auto

lemma find_absent:
  "list_all (\<lambda>it. attr_id it \<noteq> i) items \<Longrightarrow> find (\<lambda>it. attr_id it = i) items = None"
  by (induction items) auto

lemma length_remove_first:
  "find (\<lambda>it. attr_id it = i) items = Some x \<Longrightarrow>
     Suc (length (remove_first i items)) = length items"
  by (induction items) (auto split: if_splits)

lemma handleEvent_delete:
  assumes "ev_type e = utf16 ''todo-item-delete''"
    and "parseInt (count_text s) = Some c"
  shows "listUl (TodoComponent_handleEvent e s)
           = (case find (\<lambda>it. attr_id it = template_string (detail_id e)) (listUl s) of
                None \<Rightarrow> listUl s
              | Some _ \<Rightarrow> remove_first (template_string (detail_id e)) (listUl s))"
    and "count_text (TodoComponent_handleEvent e s) = Number_toString (c - 1)"
  using assms submit_neq_delete
  by (simp_all add: TodoComponent_handleEvent_def decrementCount_def removeTodoItem_def
      deleteListItem_def querySelector_todo_item_def String_of_number_def split: option.splits)

text \<open>
  Deleting an identifier that an entry of the list has removes the first entry with that
  identifier, and no other, and the counter goes down by one.
\<close>

lemma todo_delete_existing_id:
  assumes "parseInt (count_text s) = Some c"
    and "find (\<lambda>it. attr_id it = tid) (listUl s) = Some x"
  shows "listUl (TodoComponent_handleEvent
            \<lparr>ev_type = utf16 ''todo-item-delete'', detail_id = Some tid, detail_text = None\<rparr> s)
           = remove_first tid (listUl s)"
    and "Suc (length (remove_first tid (listUl s))) = length (listUl s)"
    and "count_text (TodoComponent_handleEvent
            \<lparr>ev_type = utf16 ''todo-item-delete'', detail_id = Some tid, detail_text = None\<rparr> s)
           = Number_toString (c - 1)"
  using handleEvent_delete [OF _ assms(1),
      of "\<lparr>ev_type = utf16 ''todo-item-delete'', detail_id = Some tid, detail_text = None\<rparr>"]
    assms(2) length_remove_first [OF assms(2)]
  by (simp_all add: template_string_def)

text \<open>
  C3, where the code leaves the claim. A \<open>todo-item-delete\<close> event whose identifier no entry
  has leaves the list as it is, as the claim says, but \<open>handleEvent\<close> still calls
  \<open>decrementCount\<close>: a counter that displays \<open>c\<close> displays \<open>c - 1\<close> afterwards.
\<close>

theorem todo_delete_missing_id_decrements:
  assumes "parseInt (count_text s) = Some c"
    and "selector_plain tid"
    and "list_all (\<lambda>it. attr_id it \<noteq> tid) (listUl s)"
  shows "listUl (TodoComponent_handleEvent
            \<lparr>ev_type = utf16 ''todo-item-delete'', detail_id = Some tid, detail_text = None\<rparr> s)
           = listUl s
       \<and> count_text (TodoComponent_handleEvent
            \<lparr>ev_type = utf16 ''todo-item-delete'', detail_id = Some tid, detail_text = None\<rparr> s)
           = Number_toString (c - 1)"
  using handleEvent_delete [OF _ assms(1),
      of "\<lparr>ev_type = utf16 ''todo-item-delete'', detail_id = Some tid, detail_text = None\<rparr>"]
    find_absent [OF assms(3)]
  by (simp add: template_string_def)

theorem todo_delete_missing_id_decrements_witness:
  "parseInt (count_text TodoComponent_connected) = Some 0
   \<and> selector_plain (utf16 ''42'')
   \<and> list_all (\<lambda>it. attr_id it \<noteq> utf16 ''42'') (listUl TodoComponent_connected)
   \<and> listUl (TodoComponent_handleEvent
        \<lparr>ev_type = utf16 ''todo-item-delete'', detail_id = Some (utf16 ''42''), detail_text = None\<rparr>
        TodoComponent_connected) = []
   \<and> count_text (TodoComponent_handleEvent
        \<lparr>ev_type = utf16 ''todo-item-delete'', detail_id = Some (utf16 ''42''), detail_text = None\<rparr>
        TodoComponent_connected) = utf16 ''-1''"
proof -
  have c: "parseInt (count_text TodoComponent_connected) = Some 0"
    by (simp add: TodoComponent_connected_def js_eval)
  have p: "selector_plain (utf16 ''42'')" by (simp add: selector_plain_def utf16_def)
  have a: "list_all (\<lambda>it. attr_id it \<noteq> utf16 ''42'') (listUl TodoComponent_connected)"
    by (simp add: TodoComponent_connected_def)
  have l: "listUl TodoComponent_connected = []" by (simp add: TodoComponent_connected_def)
  have n: "Number_toString (0 - 1) = utf16 ''-1''" by (simp add: js_eval)
  from todo_delete_missing_id_decrements [OF c p a] c p a show ?thesis
    unfolding l n by simp
qed

section \<open>Properties of the hamburger menu\<close>

lemma toggleAttribute_active:
  "hmIcon_active (toggleAttribute m)
     = Some (String_of_bool (hmIcon_active m \<noteq> Some (utf16 ''true'')))"
  "hmNav_active (toggleAttribute m) = hmIcon_active (toggleAttribute m)"
  "hmNav (toggleAttribute m) = hmNav m"
  by (simp_all add: toggleAttribute_def Let_def)

lemma toggle_open_active:
  "hmIcon_active (toggle_open i m) = hmIcon_active m"
  "hmNav_active (toggle_open i m) = hmNav_active m"
  by (simp_all add: toggle_open_def split: option.splits)

lemma listener_on_attach_anchor: "listener_on_anchor (attach_anchor a)"
  by (simp add: listener_on_anchor_def attach_anchor_def)

lemma listeners_on_attach_item: "listeners_on_item (attach_item li)"
proof -
  have "list_all listener_on_anchor (map attach_anchor subs)" for subs
    by (induction subs) (simp_all add: listener_on_attach_anchor)
  then show ?thesis
    by (cases "subUl li") (simp_all add: listeners_on_item_def attach_item_def listener_on_attach_anchor)
qed

lemma listeners_attached_attach: "listeners_attached (attachEventListener m)"
  by (cases "nav_ul (hmNav m)")
     (simp_all add: listeners_attached_def nav_items_def attachEventListener_def
        list_all_iff listeners_on_attach_item)

lemma nav_items_setMenuState: "nav_items (setMenuState m) = nav_items m"
  by (simp add: nav_items_def setMenuState_def)

lemma listeners_attached_connected:
  "listeners_attached (HamburgerMenu_connectedCallback parsed)"
  using listeners_attached_attach [of "HamburgerMenu_render parsed"]
  by (simp add: HamburgerMenu_connectedCallback_def HamburgerMenu_hydrate_def
      listeners_attached_def nav_items_setMenuState)

lemma nav_items_toggleAttribute: "nav_items (toggleAttribute m) = nav_items m"
  by (simp add: nav_items_def toggleAttribute_def Let_def)

lemma listeners_on_item_open: "listeners_on_item (li\<lparr>li_open := b\<rparr>) = listeners_on_item li"
  by (simp add: listeners_on_item_def)

lemma listeners_attached_toggle_open:
  assumes "listeners_attached m"
  shows "listeners_attached (toggle_open i m)"
proof (cases "nav_ul (hmNav m)")
  case None
  with assms show ?thesis by (simp add: toggle_open_def)
next
  case (Some items)
  have all: "list_all listeners_on_item items"
    using assms Some by (simp add: listeners_attached_def nav_items_def)
  have "list_all listeners_on_item (items[i := (items ! i)\<lparr>li_open := \<not> li_open (items ! i)\<rparr>])"
    if "i < length items"
    using all that by (auto simp: list_all_length nth_list_update listeners_on_item_open)
  with Some assms show ?thesis
    by (auto simp: toggle_open_def listeners_attached_def nav_items_def)
qed

lemma listeners_attached_click:
  assumes "listeners_attached m"
  shows "listeners_attached (click t m)"
proof -
  have t: "listeners_attached (toggleAttribute m)"
    using assms by (simp add: listeners_attached_def nav_items_toggleAttribute)
  show ?thesis
    using assms t listeners_attached_toggle_open
    by (cases t) (auto simp: click_def split: option.splits)
qed

lemma listeners_attached_clicks:
  "listeners_attached m \<Longrightarrow> listeners_attached (clicks ts m)"
  by (induction ts arbitrary: m) (simp_all add: listeners_attached_click)

lemma target_anchor_listener:
  assumes "listeners_attached m" and "target_anchor t m = Some a"
  shows "listener_on_anchor a"
proof (cases t)
  case OnIcon
  with assms show ?thesis by (simp add: target_anchor_def)
next
  case (OnLink i)
  with assms show ?thesis
    by (auto simp: target_anchor_def listeners_attached_def listeners_on_item_def
        list_all_length split: if_splits)
next
  case (OnSubLink i j)
  with assms show ?thesis
    by (auto simp: target_anchor_def listeners_attached_def listeners_on_item_def
        list_all_length split: if_splits option.splits)
qed

lemma click_generated_link:
  assumes "listeners_attached m" and "t = OnIcon \<or> on_generated_link t m"
  shows "hmIcon_active (click t m)
           = Some (String_of_bool (hmIcon_active m \<noteq> Some (utf16 ''true'')))"
    and "hmNav_active (click t m) = hmIcon_active (click t m)"
proof -
  have "hmIcon_active (click t m) = hmIcon_active (toggleAttribute m)
        \<and> hmNav_active (click t m) = hmNav_active (toggleAttribute m)"
  proof (cases "t = OnIcon")
    case True
    then show ?thesis by (simp add: click_def)
  next
    case False
    with assms(2) obtain a where a: "target_anchor t m = Some a"
      and i: "anchor_id a = Some (utf16 ''hm-nav-link'')"
      by (auto simp: on_generated_link_def split: option.splits)
    from target_anchor_listener [OF assms(1) a] i have "menu_click a"
      by (simp add: listener_on_anchor_def)
    with a False show ?thesis
      by (cases t) (simp_all add: click_def toggle_open_active)
  qed
  then show "hmIcon_active (click t m)
           = Some (String_of_bool (hmIcon_active m \<noteq> Some (utf16 ''true'')))"
    and "hmNav_active (click t m) = hmIcon_active (click t m)"
    by (simp_all add: toggleAttribute_active)
qed

lemma active_equal_click:
  "hmIcon_active m = hmNav_active m \<Longrightarrow> hmIcon_active (click t m) = hmNav_active (click t m)"
  by (cases t) (auto simp: click_def toggle_open_active toggleAttribute_active split: option.splits)

lemma active_equal_clicks:
  "hmIcon_active m = hmNav_active m \<Longrightarrow> hmIcon_active (clicks ts m) = hmNav_active (clicks ts m)"
  by (induction ts arbitrary: m) (simp_all add: active_equal_click)

lemma active_equal_connected:
  "hmIcon_active (HamburgerMenu_connectedCallback parsed)
     = hmNav_active (HamburgerMenu_connectedCallback parsed)"
  by (simp add: HamburgerMenu_connectedCallback_def HamburgerMenu_hydrate_def setMenuState_def)

text \<open>
  C8, as the code has it. In the connected menu, after any clicks, the \<open>data-active\<close>
  attributes of the icon and of the navigation panel are equal. A click on the icon, and a
  click on a generated link with the id \<open>hm-nav-link\<close> (the link of an entry without
  children, or a link of a sub-list), runs \<open>toggleAttribute\<close>: both attributes receive the
  same new value, \<open>"false"\<close> if the icon's attribute was \<open>"true"\<close> and \<open>"true"\<close> otherwise. So a
  link click closes the menu when it is open, and opens it when it is closed.
\<close>

theorem hamburger_click_toggles_both:
  assumes "t = OnIcon \<or> on_generated_link t (clicks ts (HamburgerMenu_connectedCallback parsed))"
  shows "hmIcon_active (clicks ts (HamburgerMenu_connectedCallback parsed))
           = hmNav_active (clicks ts (HamburgerMenu_connectedCallback parsed))
       \<and> hmIcon_active (click t (clicks ts (HamburgerMenu_connectedCallback parsed)))
           = Some (String_of_bool
               (hmIcon_active (clicks ts (HamburgerMenu_connectedCallback parsed))
                  \<noteq> Some (utf16 ''true'')))
       \<and> hmNav_active (click t (clicks ts (HamburgerMenu_connectedCallback parsed)))
           = hmIcon_active (click t (clicks ts (HamburgerMenu_connectedCallback parsed)))"
proof -
  let ?m = "clicks ts (HamburgerMenu_connectedCallback parsed)"
  have att: "listeners_attached ?m"
    by (rule listeners_attached_clicks) (rule listeners_attached_connected)
  have eq: "hmIcon_active ?m = hmNav_active ?m"
    by (rule active_equal_clicks) (rule active_equal_connected)
  from click_generated_link [OF att assms] eq show ?thesis by simp
qed

lemmas menu_eval = HamburgerMenu_connectedCallback_def HamburgerMenu_hydrate_def
  HamburgerMenu_render_def HamburgerNav_connectedCallback_def HamburgerNav_render_def
  HamburgerNav_constructor_def HamburgerNav_hydrate_def getDataLinks_def createLinkItem_def
  createSubLinkItem_def attachEventListener_def attach_item_def attach_anchor_def
  setMenuState_def toggleAttribute_def click_def target_anchor_def nav_items_def
  toggle_open_def on_generated_link_def String_of_bool_def template_string_def

theorem hamburger_click_toggles_both_witness:
  "on_generated_link (OnLink 0)
      (clicks [OnIcon] (HamburgerMenu_connectedCallback (Returns (JsonArray [home_link]))))
   \<and> hmIcon_active (clicks [OnIcon] (HamburgerMenu_connectedCallback (Returns (JsonArray [home_link]))))
       = Some (utf16 ''true'')
   \<and> hmIcon_active (click (OnLink 0)
        (clicks [OnIcon] (HamburgerMenu_connectedCallback (Returns (JsonArray [home_link])))))
       = Some (utf16 ''false'')
   \<and> hmNav_active (click (OnLink 0)
        (clicks [OnIcon] (HamburgerMenu_connectedCallback (Returns (JsonArray [home_link])))))
       = Some (utf16 ''false'')"
proof -
  have g: "on_generated_link (OnLink 0)
      (clicks [OnIcon] (HamburgerMenu_connectedCallback (Returns (JsonArray [home_link]))))"
    by (simp add: menu_eval home_link_def Let_def)
  have o: "hmIcon_active (clicks [OnIcon] (HamburgerMenu_connectedCallback (Returns (JsonArray [home_link]))))
       = Some (utf16 ''true'')"
    by (simp add: menu_eval home_link_def Let_def utf16_def)
  from hamburger_click_toggles_both [of "OnLink 0" "[OnIcon]" "Returns (JsonArray [home_link])"] g o
  show ?thesis by (simp add: String_of_bool_def)
qed

text \<open>
  The menu is opened by the icon and closed by a click on the link. A second click on the
  same link (the link keeps the focus, and its \<open>keydown\<close> listener turns Enter into a click)
  opens the menu again: the click does not clear the active state.
\<close>

theorem hamburger_link_click_opens_counterexample:
  "on_generated_link (OnLink 0)
      (clicks [OnIcon, OnLink 0] (HamburgerMenu_connectedCallback (Returns (JsonArray [home_link]))))
   \<and> hmIcon_active (clicks [OnIcon, OnLink 0]
        (HamburgerMenu_connectedCallback (Returns (JsonArray [home_link])))) = Some (utf16 ''false'')
   \<and> hmIcon_active (click (OnLink 0) (clicks [OnIcon, OnLink 0]
        (HamburgerMenu_connectedCallback (Returns (JsonArray [home_link]))))) = Some (utf16 ''true'')
   \<and> hmNav_active (click (OnLink 0) (clicks [OnIcon, OnLink 0]
        (HamburgerMenu_connectedCallback (Returns (JsonArray [home_link]))))) = Some (utf16 ''true'')"
  by (simp add: menu_eval home_link_def Let_def utf16_def)

text \<open>
  C4, where the code leaves the claim. When \<open>JSON.parse\<close> throws on the value of
  \<open>data-links\<close>, \<open>getDataLinks\<close> catches and logs the error and returns \<open>undefined\<close>; \<open>render\<close>
  then calls \<open>forEach\<close> on \<open>undefined\<close>, and the \<open>TypeError\<close> leaves \<open>render\<close> and
  \<open>connectedCallback\<close> uncaught. No link entry is rendered, and \<open>hydrate\<close> is not reached.
\<close>

theorem hamburger_nav_render_throws_on_invalid_json:
  "HamburgerNav_render (Throws e) n
     = Inl (TypeError (utf16 ''cannot read forEach of undefined''),
            n\<lparr>console_error := console_error n @ [utf16 ''Invalid JSON in data-links:''],
              dataLinks := None\<rparr>)
   \<and> HamburgerNav_connectedCallback (Throws e) HamburgerNav_constructor
     = Inl (TypeError (utf16 ''cannot read forEach of undefined''),
            \<lparr>dataLinks = None, nav_ul = None,
             console_error = [utf16 ''Invalid JSON in data-links:''], observing = False\<rparr>)"
  by (simp add: HamburgerNav_connectedCallback_def HamburgerNav_render_def getDataLinks_def
      HamburgerNav_constructor_def)

text \<open>An array of entries is rendered entry by entry.\<close>

lemma hamburger_nav_render_array:
  "HamburgerNav_render (Returns (JsonArray ls)) n
     = Inr (n\<lparr>dataLinks := Some (JsonArray ls), nav_ul := Some (map createLinkItem ls)\<rparr>)"
  by (simp add: HamburgerNav_render_def getDataLinks_def)

section \<open>Properties of the theme toggle\<close>

lemma theme_strings:
  "utf16 ''light'' \<noteq> utf16 ''dark''" "utf16 ''true'' \<noteq> utf16 ''false''"
  "utf16 ''sun'' \<noteq> utf16 ''moon''" "utf16 ''light'' \<noteq> []" "utf16 ''dark'' \<noteq> []"
  "utf16 ''clicked-sun'' \<noteq> utf16 ''clicked-moon''"
  by (simp_all add: utf16_def)

lemma connected_one_icon:
  assumes "theme_value theme"
  shows "one_icon_opposite_theme (ToggleTheme_connectedCallback prefersDark (ToggleTheme_constructor theme))"
    and "rendered (ToggleTheme_connectedCallback prefersDark (ToggleTheme_constructor theme))"
  using assms theme_strings
  by (auto simp: theme_value_def ToggleTheme_connectedCallback_def ToggleTheme_constructor_def
      setSystemTheme_def ToggleTheme_render_def setIconVisibility_def one_icon_opposite_theme_def
      sun_active_def moon_active_def Let_def)

lemma icon_click_one_icon:
  assumes "rendered s" and "icon_click e"
  shows "one_icon_opposite_theme (ToggleTheme_handleEvent e s)"
    and "rendered (ToggleTheme_handleEvent e s)"
  using assms theme_strings
  by (auto simp: icon_click_def clicked_sun_def clicked_moon_def ToggleTheme_handleEvent_def
      handleIconClick_def set_icons_def one_icon_opposite_theme_def sun_active_def
      moon_active_def Let_def)

lemma deliver_one_icon:
  assumes "rendered s" and "one_icon_opposite_theme s" and "list_all icon_click es"
  shows "one_icon_opposite_theme (ToggleTheme_deliver es s) \<and> rendered (ToggleTheme_deliver es s)"
  using assms
proof (induction es arbitrary: s)
  case Nil
  then show ?case by simp
next
  case (Cons e es)
  then have "icon_click e" and "list_all icon_click es" by simp_all
  with Cons.IH [of "ToggleTheme_handleEvent e s"] icon_click_one_icon [OF Cons.prems(1), of e]
  show ?case by simp
qed

text \<open>
  C5. Let the document have no \<open>data-theme\<close> yet, or \<open>"light"\<close> or \<open>"dark"\<close>. After the toggle
  is connected (system theme set, icons rendered), and after every further click event
  of the sun or the moon icon that it handles, exactly one of the two icons has
  \<open>data-active\<close> equal to \<open>"true"\<close>: the sun icon when \<open>data-theme\<close> is \<open>"dark"\<close>, the moon icon
  when it is \<open>"light"\<close>.
\<close>

theorem toggle_theme_one_icon_active:
  assumes "theme_value theme" and "list_all icon_click es"
  shows "one_icon_opposite_theme
           (ToggleTheme_deliver es
             (ToggleTheme_connectedCallback prefersDark (ToggleTheme_constructor theme)))"
  using deliver_one_icon [OF connected_one_icon(2) connected_one_icon(1), OF assms(1) assms(1) assms(2)]
  by simp

lemmas theme_eval = ToggleTheme_connectedCallback_def ToggleTheme_constructor_def
  setSystemTheme_def ToggleTheme_render_def setIconVisibility_def ToggleTheme_handleEvent_def
  handleIconClick_def set_icons_def clicked_sun_def clicked_moon_def

theorem toggle_theme_one_icon_active_witness:
  "theme_value None \<and> list_all icon_click [clicked_moon, clicked_sun, clicked_moon]
   \<and> one_icon_opposite_theme
       (ToggleTheme_deliver [clicked_moon, clicked_sun, clicked_moon]
         (ToggleTheme_connectedCallback False (ToggleTheme_constructor None)))
   \<and> ToggleTheme_deliver [clicked_moon, clicked_sun, clicked_moon]
         (ToggleTheme_connectedCallback False (ToggleTheme_constructor None))
       = \<lparr>data_theme = Some (utf16 ''dark''), icon_sun_active = Some (utf16 ''true''),
          icon_moon_active = Some (utf16 ''false''), rendered = True\<rparr>"
proof -
  have t: "theme_value None" by (simp add: theme_value_def)
  have l: "list_all icon_click [clicked_moon, clicked_sun, clicked_moon]"
    by (simp add: icon_click_def)
  have v: "ToggleTheme_deliver [clicked_moon, clicked_sun, clicked_moon]
         (ToggleTheme_connectedCallback False (ToggleTheme_constructor None))
       = \<lparr>data_theme = Some (utf16 ''dark''), icon_sun_active = Some (utf16 ''true''),
          icon_moon_active = Some (utf16 ''false''), rendered = True\<rparr>"
    by (simp add: theme_eval Let_def utf16_def)
  from toggle_theme_one_icon_active [OF t l, of False] t l v show ?thesis by simp
qed

text \<open>
  Outside these values: a document that already carries another \<open>data-theme\<close> gets both
  icons rendered inactive, until the first click.
\<close>

lemma other_preset_theme_no_icon:
  "icon_sun_active (ToggleTheme_connectedCallback False (ToggleTheme_constructor (Some (utf16 ''auto''))))
     = Some (utf16 ''false'')
   \<and> icon_moon_active (ToggleTheme_connectedCallback False (ToggleTheme_constructor (Some (utf16 ''auto''))))
     = Some (utf16 ''false'')"
  by (simp add: theme_eval Let_def utf16_def)

section \<open>Properties of the icon loader\<close>

subsection \<open>insertIcon\<close>

lemma light_neq_dark: "utf16 ''light'' \<noteq> utf16 ''dark''"
  by (simp add: utf16_def)

lemma insertIcon_no_variant:
  assumes "icon_container s = Some imgs"
    and "\<not> (theme = utf16 ''light'' \<and> iconLight s \<noteq> None)"
    and "\<not> (theme = utf16 ''dark'' \<and> iconDark s \<noteq> None)"
  shows "insertIcon height width theme s = Inr (s\<lparr>icon_container := Some []\<rparr>)"
  using assms
  by (auto simp: insertIcon_def insert_light_def insert_dark_def)

lemma insertIcon_light:
  assumes "icon_container s = Some imgs" and "iconLight s = Some b" and "dimensions_set s"
  shows "insertIcon height width (utf16 ''light'') s
           = Inr (s\<lparr>icon_container :=
                     Some [\<lparr>img_width = width, img_height = height, img_src = b,
                            img_alt = utf16 ''Light Icon''\<rparr>]\<rparr>)"
  using assms light_neq_dark
  by (auto simp: insertIcon_def insert_light_def insert_dark_def append_img_def dimensions_set_def)

lemma insertIcon_dark:
  assumes "icon_container s = Some imgs" and "iconDark s = Some b"
    and "iconWidth s = Some w" and "iconHeight s = Some h"
  shows "insertIcon height width (utf16 ''dark'') s
           = Inr (s\<lparr>icon_container :=
                     Some [\<lparr>img_width = w, img_height = h, img_src = b,
                            img_alt = utf16 ''Dark Icon''\<rparr>]\<rparr>)"
  using assms light_neq_dark
  by (auto simp: insertIcon_def insert_light_def insert_dark_def append_img_def)

text \<open>
  C10. Let the shadow root have its icon container. If the theme is neither \<open>"light"\<close> with a
  light blob held nor \<open>"dark"\<close> with a dark blob held (so for every other theme string, and
  when the matching blob is unavailable), \<open>insertIcon\<close> clears the container and leaves it
  empty. A container that is not empty afterwards means the theme was exactly \<open>"light"\<close> or
  \<open>"dark"\<close> and the matching blob was held; then, the dimensions being set, the container
  holds exactly one image, of that blob.
\<close>

theorem insertIcon_only_matching_variant:
  assumes "icon_container s = Some imgs"
  shows "(\<not> (theme = utf16 ''light'' \<and> iconLight s \<noteq> None)
          \<and> \<not> (theme = utf16 ''dark'' \<and> iconDark s \<noteq> None)
          \<longrightarrow> insertIcon height width theme s = Inr (s\<lparr>icon_container := Some []\<rparr>))
       \<and> (\<forall>s'. insertIcon height width theme s = Inr s' \<and> icon_container s' \<noteq> Some []
            \<longrightarrow> (theme = utf16 ''light'' \<and> iconLight s \<noteq> None)
                \<or> (theme = utf16 ''dark'' \<and> iconDark s \<noteq> None))
       \<and> (\<forall>b. theme = utf16 ''light'' \<and> iconLight s = Some b \<and> dimensions_set s
            \<longrightarrow> insertIcon height width theme s
                  = Inr (s\<lparr>icon_container :=
                           Some [\<lparr>img_width = width, img_height = height, img_src = b,
                                  img_alt = utf16 ''Light Icon''\<rparr>]\<rparr>))
       \<and> (\<forall>b w h. theme = utf16 ''dark'' \<and> iconDark s = Some b
                \<and> iconWidth s = Some w \<and> iconHeight s = Some h
            \<longrightarrow> insertIcon height width theme s
                  = Inr (s\<lparr>icon_container :=
                           Some [\<lparr>img_width = w, img_height = h, img_src = b,
                                  img_alt = utf16 ''Dark Icon''\<rparr>]\<rparr>))"
proof (intro conjI allI impI)
  assume "\<not> (theme = utf16 ''light'' \<and> iconLight s \<noteq> None)
          \<and> \<not> (theme = utf16 ''dark'' \<and> iconDark s \<noteq> None)"
  then show "insertIcon height width theme s = Inr (s\<lparr>icon_container := Some []\<rparr>)"
    using insertIcon_no_variant [OF assms] by blast
next
  fix s'
  assume a: "insertIcon height width theme s = Inr s' \<and> icon_container s' \<noteq> Some []"
  show "(theme = utf16 ''light'' \<and> iconLight s \<noteq> None)
        \<or> (theme = utf16 ''dark'' \<and> iconDark s \<noteq> None)"
  proof (rule ccontr)
    assume "\<not> ((theme = utf16 ''light'' \<and> iconLight s \<noteq> None)
            \<or> (theme = utf16 ''dark'' \<and> iconDark s \<noteq> None))"
    then have "insertIcon height width theme s = Inr (s\<lparr>icon_container := Some []\<rparr>)"
      using insertIcon_no_variant [OF assms] by blast
    with a show False by auto
  qed
next
  fix b
  assume "theme = utf16 ''light'' \<and> iconLight s = Some b \<and> dimensions_set s"
  then show "insertIcon height width theme s
                  = Inr (s\<lparr>icon_container :=
                           Some [\<lparr>img_width = width, img_height = height, img_src = b,
                                  img_alt = utf16 ''Light Icon''\<rparr>]\<rparr>)"
    using insertIcon_light [OF assms] by blast
next
  fix b w h
  assume "theme = utf16 ''dark'' \<and> iconDark s = Some b
                \<and> iconWidth s = Some w \<and> iconHeight s = Some h"
  then show "insertIcon height width theme s
                  = Inr (s\<lparr>icon_container :=
                           Some [\<lparr>img_width = w, img_height = h, img_src = b,
                                  img_alt = utf16 ''Dark Icon''\<rparr>]\<rparr>)"
    using insertIcon_dark [OF assms] by blast
qed

text \<open>With the dimensions set, insertIcon returns, and it changes the container only.\<close>

lemma insertIcon_ready:
  assumes "dimensions_set s"
  shows "\<exists>c. insertIcon height width theme s = Inr (s\<lparr>icon_container := c\<rparr>)
             \<and> shows_held (s\<lparr>icon_container := c\<rparr>)"
proof (cases "icon_container s")
  case None
  then have "insertIcon height width theme s = Inr (s\<lparr>icon_container := None\<rparr>)"
    by (simp add: insertIcon_def)
  then show ?thesis by (auto simp: shows_held_def)
next
  case (Some imgs)
  from assms obtain w h where wh: "iconWidth s = Some w" "iconHeight s = Some h"
    by (auto simp: dimensions_set_def)
  consider (light) b where "theme = utf16 ''light''" "iconLight s = Some b"
    | (dark) b where "theme = utf16 ''dark''" "iconDark s = Some b"
    | (none) "\<not> (theme = utf16 ''light'' \<and> iconLight s \<noteq> None)"
             "\<not> (theme = utf16 ''dark'' \<and> iconDark s \<noteq> None)"
    by (cases "iconLight s"; cases "iconDark s") auto
  then show ?thesis
  proof cases
    case light
    with insertIcon_light [OF Some light(2) assms] show ?thesis
      by (auto simp: shows_held_def)
  next
    case dark
    with insertIcon_dark [OF Some dark(2) wh] show ?thesis
      by (auto simp: shows_held_def)
  next
    case none
    with insertIcon_no_variant [OF Some none] show ?thesis
      by (auto simp: shows_held_def)
  qed
qed

subsection \<open>After ready: theme changes\<close>

lemma on_mutation_ready:
  assumes "dimensions_set s"
  shows "\<exists>s'. on_mutation w s = Inr s' \<and> same_variants s s' \<and> shows_held s'
              \<or> on_mutation w s = Inr s' \<and> same_variants s s'
                 \<and> icon_container s' = icon_container s"
proof -
  define s1 where
    "s1 = (if currentTheme s \<noteq> None \<and> doc_theme w \<noteq> None
           then s\<lparr>currentTheme := doc_theme w\<rparr> else s)"
  have d1: "dimensions_set s1" and v1: "same_variants s s1"
    and c1: "icon_container s1 = icon_container s"
    using assms by (simp_all add: s1_def dimensions_set_def same_variants_def)
  from d1 obtain w' h' where wh: "iconWidth s1 = Some w'" "iconHeight s1 = Some h'"
    by (auto simp: dimensions_set_def)
  show ?thesis
  proof (cases "(doc_theme w = Some (utf16 ''light'') \<or> doc_theme w = Some (utf16 ''dark''))
                \<and> currentTheme s1 \<noteq> None")
    case True
    then obtain cur where cur: "currentTheme s1 = Some cur" by auto
    from insertIcon_ready [OF d1, of h' w' cur]
    obtain c where ins: "insertIcon h' w' cur s1 = Inr (s1\<lparr>icon_container := c\<rparr>)"
      and held: "shows_held (s1\<lparr>icon_container := c\<rparr>)" by blast
    have "on_mutation w s = Inr (s1\<lparr>icon_container := c\<rparr>)"
      using True cur wh ins unfolding on_mutation_def Let_def s1_def [symmetric] by auto
    moreover have "same_variants s (s1\<lparr>icon_container := c\<rparr>)"
      using v1 by (simp add: same_variants_def)
    ultimately show ?thesis using held by blast
  next
    case False
    then have "on_mutation w s = Inr s1"
      using wh unfolding on_mutation_def Let_def s1_def [symmetric]
      by (auto split: option.splits)
    with v1 c1 show ?thesis by blast
  qed
qed

lemma shows_held_cong:
  "same_variants s s' \<Longrightarrow> icon_container s' = icon_container s \<Longrightarrow> shows_held s
     \<Longrightarrow> shows_held s'"
  by (auto simp: shows_held_def same_variants_def split: option.splits)

lemma shows_held_pending: "shows_held (s\<lparr>pending := n\<rparr>) = shows_held s"
  by (cases "icon_container s") (simp_all add: shows_held_def)

lemma on_mutation_ready':
  assumes "dimensions_set s" and "shows_held s"
  obtains s' where "on_mutation w s = Inr s'" and "same_variants s s'" and "shows_held s'"
    and "pending s' = pending s"
proof -
  from on_mutation_ready [OF assms(1), of w]
  obtain s' where m: "on_mutation w s = Inr s'" and v: "same_variants s s'"
    and h: "shows_held s' \<or> icon_container s' = icon_container s" by blast
  have held: "shows_held s'" using h shows_held_cong [OF v _ assms(2)] by blast
  have "pending s' = pending s"
  proof -
    have "\<And>h w t x y. insertIcon h w t x = Inr y \<Longrightarrow> pending y = pending x"
      by (auto simp: insertIcon_def insert_light_def insert_dark_def append_img_def
          split: option.splits if_splits sum.splits)
    with m show ?thesis
      unfolding on_mutation_def Let_def
      by (fastforce split: option.splits if_splits)
  qed
  with m v held show ?thesis using that by blast
qed

lemma dimensions_same_variants:
  "same_variants s s' \<Longrightarrow> dimensions_set s \<Longrightarrow> dimensions_set s'"
  by (simp add: same_variants_def dimensions_set_def)

lemma same_variants_trans:
  "same_variants a b \<Longrightarrow> same_variants b c \<Longrightarrow> same_variants a c"
  by (simp add: same_variants_def)

lemma observer_callback_ready:
  assumes "dimensions_set s" and "shows_held s"
  shows "\<exists>s'. observer_callback n w s = Inr s' \<and> same_variants s s' \<and> shows_held s'
              \<and> pending s' = pending s"
  using assms
proof (induction n arbitrary: s)
  case 0
  then show ?case by (simp add: same_variants_def)
next
  case (Suc n)
  from on_mutation_ready' [OF Suc.prems, of w]
  obtain s1 where m: "on_mutation w s = Inr s1" and v: "same_variants s s1"
    and h: "shows_held s1" and p: "pending s1 = pending s" by blast
  from Suc.IH [OF dimensions_same_variants [OF v Suc.prems(1)] h]
  obtain s' where "observer_callback n w s1 = Inr s'" "same_variants s1 s'" "shows_held s'"
    "pending s' = pending s1" by blast
  with m v p show ?case using same_variants_trans by (auto)
qed

lemma page_step_ready:
  assumes "dimensions_set s" and "shows_held s"
  shows "\<exists>s' w'. page_step x (s, w) = Inr (s', w')
           \<and> effects w' = effects w \<and> cache w' = cache w
           \<and> same_variants s s' \<and> shows_held s'"
proof (cases x)
  case (SetTheme t)
  then show ?thesis
    using assms
    by (auto simp: page_step_def same_variants_def shows_held_pending)
next
  case Deliver
  have d0: "dimensions_set (s\<lparr>pending := 0\<rparr>)" and h0: "shows_held (s\<lparr>pending := 0\<rparr>)"
    using assms by (simp_all add: dimensions_set_def shows_held_pending)
  from observer_callback_ready [OF d0 h0, of "pending s" w]
  obtain s' where "observer_callback (pending s) w (s\<lparr>pending := 0\<rparr>) = Inr s'"
    and "same_variants (s\<lparr>pending := 0\<rparr>) s'" and "shows_held s'" by blast
  with Deliver show ?thesis
    by (auto simp: page_step_def same_variants_def)
qed

lemma page_steps_ready:
  assumes "dimensions_set s" and "shows_held s"
  shows "\<exists>s' w'. page_steps xs (s, w) = Inr (s', w')
           \<and> effects w' = effects w \<and> cache w' = cache w
           \<and> same_variants s s' \<and> shows_held s'"
  using assms
proof (induction xs arbitrary: s w)
  case Nil
  then show ?case by (simp add: same_variants_def)
next
  case (Cons x xs)
  from page_step_ready [OF Cons.prems, of x w]
  obtain s1 w1 where st: "page_step x (s, w) = Inr (s1, w1)"
    and e1: "effects w1 = effects w" and c1: "cache w1 = cache w"
    and v1: "same_variants s s1" and h1: "shows_held s1" by blast
  from Cons.IH [OF dimensions_same_variants [OF v1 Cons.prems(1)] h1, of w1]
  obtain s' w' where "page_steps xs (s1, w1) = Inr (s', w')"
    "effects w' = effects w1" "cache w' = cache w1" "same_variants s1 s'" "shows_held s'"
    by blast
  with st e1 c1 v1 show ?case using same_variants_trans by auto
qed

subsection \<open>hydrate\<close>

lemma getSystemTheme_frame:
  "getSystemTheme w = (t, w1) \<Longrightarrow>
     cache w1 = cache w \<and> network w1 = network w \<and> put_resolves w1 = put_resolves w
     \<and> effects w1 = effects w \<and> caches_open w1 = caches_open w"
  by (auto simp: getSystemTheme_def Let_def split: option.splits)

lemma initVariables_Inr:
  assumes "initVariables s w = Inr (s1, w1)"
  shows "dimensions_set s1" "currentTheme s1 \<noteq> None"
    "srcLight s1 = attr_data_src_light s" "srcDark s1 = attr_data_src_dark s"
    "icon_container s1 = icon_container s"
    "cache w1 = cache w" "network w1 = network w"
proof -
  obtain t wa where g: "getSystemTheme w = (t, wa)" by (cases "getSystemTheme w")
  from assms g have s1: "s1 = s\<lparr>currentTheme := Some t, iconLight := None, iconDark := None,
                 iconHeight := Some (getDimensionAttribute (attr_data_height s) 64),
                 iconWidth := Some (getDimensionAttribute (attr_data_width s) 64),
                 srcLight := attr_data_src_light s, srcDark := attr_data_src_dark s\<rparr>"
    and w1: "w1 = wa"
    by (auto simp: initVariables_def Let_def split: if_splits)
  show "dimensions_set s1" "currentTheme s1 \<noteq> None"
    "srcLight s1 = attr_data_src_light s" "srcDark s1 = attr_data_src_dark s"
    "icon_container s1 = icon_container s"
    by (simp_all add: s1 dimensions_set_def)
  show "cache w1 = cache w" "network w1 = network w"
    using getSystemTheme_frame [OF g] w1 by simp_all
qed

lemma getIcon_value:
  "getIcon True key w = (b, w1) \<Longrightarrow>
     b = (case key of None \<Rightarrow> None | Some k \<Rightarrow> cache w k)
     \<and> cache w1 = cache w \<and> network w1 = network w"
  by (auto simp: getIcon_def getCacheItem_def perform_def split: option.splits)

lemma initIcons_value:
  assumes "initIcons s w = (s1, w1)"
  shows "iconLight s1 = (case srcLight s of None \<Rightarrow> None | Some k \<Rightarrow> cache w k)"
    "iconDark s1 = (case srcDark s of None \<Rightarrow> None | Some k \<Rightarrow> cache w k)"
    "iconWidth s1 = iconWidth s" "iconHeight s1 = iconHeight s"
    "currentTheme s1 = currentTheme s" "srcLight s1 = srcLight s" "srcDark s1 = srcDark s"
    "icon_container s1 = icon_container s" "network w1 = network w"
proof -
  obtain l wa where a: "getIcon True (srcLight s) w = (l, wa)"
    by (cases "getIcon True (srcLight s) w")
  obtain d wb where b: "getIcon True (srcDark s) wa = (d, wb)"
    by (cases "getIcon True (srcDark s) wa")
  from assms a b have s1: "s1 = s\<lparr>iconLight := l, iconDark := d\<rparr>" and w1: "w1 = wb"
    by (simp_all add: initIcons_def)
  from getIcon_value [OF a] getIcon_value [OF b]
  show "iconLight s1 = (case srcLight s of None \<Rightarrow> None | Some k \<Rightarrow> cache w k)"
    "iconDark s1 = (case srcDark s of None \<Rightarrow> None | Some k \<Rightarrow> cache w k)"
    "network w1 = network w"
    by (auto simp: s1 w1 split: option.splits)
  show "iconWidth s1 = iconWidth s" "iconHeight s1 = iconHeight s"
    "currentTheme s1 = currentTheme s" "srcLight s1 = srcLight s" "srcDark s1 = srcDark s"
    "icon_container s1 = icon_container s"
    by (simp_all add: s1)
qed

lemma fetchIcon_fails:
  assumes "src \<noteq> []" and "fetch_fails w src"
  shows "fetchIcon (Some src) True w
           = (None, w\<lparr>effects := effects w @ [ConsoleLog, Fetch src, ConsoleError]\<rparr>)"
  using assms
  by (auto simp: fetchIcon_def fetchIcon_try_def fetch_fails_def perform_def Let_def
      split: fetch_result.splits)

lemma fetchIcon_network:
  "fetchIcon src ok w = (b, w1) \<Longrightarrow> network w1 = network w"
  by (auto simp: fetchIcon_def fetchIcon_try_def perform_def Let_def
      split: option.splits fetch_result.splits if_splits)

lemma fetch_missing_frame:
  assumes "fetch_missing s w = (s1, w1)"
  shows "iconWidth s1 = iconWidth s" "iconHeight s1 = iconHeight s"
    "currentTheme s1 = currentTheme s" "icon_container s1 = icon_container s"
  using assms
  by (auto simp: fetch_missing_def Let_def split: option.splits prod.splits)

lemma fetch_missing_light_fails:
  assumes "fetch_missing s w = (s1, w1)"
    and "iconLight s = None" and "srcLight s = Some src" and "src \<noteq> []"
    and "fetch_fails w src"
  shows "iconLight s1 = None"
  using assms fetchIcon_fails [OF assms(4,5)]
  by (auto simp: fetch_missing_def Let_def split: option.splits prod.splits)

lemma fetch_missing_dark_fails:
  assumes "fetch_missing s w = (s1, w1)"
    and "iconDark s = None" and "srcDark s = Some src" and "src \<noteq> []"
    and "fetch_fails w src"
  shows "iconDark s1 = None"
proof -
  obtain sa wa where a: "(case iconLight s of
                        None \<Rightarrow> (let (b, w') = fetchIcon (srcLight s) True w
                                 in (s\<lparr>iconLight := b\<rparr>, w'))
                      | Some b \<Rightarrow> (s, w)) = (sa, wa)"
    by (cases "(case iconLight s of
                        None \<Rightarrow> (let (b, w') = fetchIcon (srcLight s) True w
                                 in (s\<lparr>iconLight := b\<rparr>, w'))
                      | Some b \<Rightarrow> (s, w))")
  have n: "network wa = network w" and d: "iconDark sa = None" and sd: "srcDark sa = Some src"
    using a assms(2,3) fetchIcon_network
    by (auto split: option.splits prod.splits)
  have f: "fetch_fails wa src" using n assms(5) by (simp add: fetch_fails_def)
  from assms(1) a d sd fetchIcon_fails [OF assms(4) f] show ?thesis
    by (auto simp: fetch_missing_def)
qed

lemma insertIcon_Inr_frame:
  "insertIcon h w t s = Inr s' \<Longrightarrow>
     iconLight s' = iconLight s \<and> iconDark s' = iconDark s \<and> iconWidth s' = iconWidth s
     \<and> iconHeight s' = iconHeight s
     \<and> (icon_container s \<noteq> None \<longrightarrow> icon_container s' \<noteq> None)"
  by (auto simp: insertIcon_def insert_light_def insert_dark_def append_img_def
      split: option.splits if_splits sum.splits)

text \<open>What a completed \<open>hydrate\<close> has done, step by step.\<close>

lemma hydrate_Inr:
  assumes "IconThemeAware_hydrate s w = Inr (s', w')"
  obtains s1 w1 s2 w2 s3 width height theme s4 where
    "initVariables s w = Inr (s1, w1)"
    "\<not> falsy (srcLight s1)" "\<not> falsy (srcDark s1)"
    "initIcons s1 w1 = (s2, w2)"
    "fetch_missing s2 w2 = (s3, w')"
    "iconWidth s3 = Some width" "iconHeight s3 = Some height" "currentTheme s3 = Some theme"
    "insertIcon height width theme s3 = Inr s4"
    "s' = observeAttributes s4"
proof -
  from assms obtain s1 w1 where iv: "initVariables s w = Inr (s1, w1)"
    by (auto simp: IconThemeAware_hydrate_def split: sum.splits)
  obtain s2 w2 where ii: "initIcons s1 w1 = (s2, w2)" by (cases "initIcons s1 w1")
  obtain s3 w3 where fm: "fetch_missing s2 w2 = (s3, w3)" by (cases "fetch_missing s2 w2")
  from assms iv ii fm have nf: "\<not> falsy (srcLight s1)" "\<not> falsy (srcDark s1)"
    by (auto simp: IconThemeAware_hydrate_def split: if_splits)
  from assms iv ii fm nf obtain width height theme s4 where
    "iconWidth s3 = Some width" "iconHeight s3 = Some height" "currentTheme s3 = Some theme"
    "insertIcon height width theme s3 = Inr s4" "s' = observeAttributes s4" "w' = w3"
    by (auto simp: IconThemeAware_hydrate_def split: option.splits sum.splits)
  with iv ii fm nf show ?thesis using that by blast
qed

lemma hydrate_ready:
  assumes "IconThemeAware_hydrate s w = Inr (s', w')"
  shows "dimensions_set s'" and "shows_held s'" and "observer s'"
proof -
  from assms obtain s3 width height theme s4 where
    d3: "iconWidth s3 = Some width" "iconHeight s3 = Some height"
    and ins: "insertIcon height width theme s3 = Inr s4"
    and s': "s' = observeAttributes s4"
    by (rule hydrate_Inr)
  have ds3: "dimensions_set s3" using d3 by (simp add: dimensions_set_def)
  from insertIcon_ready [OF ds3, of height width theme] ins
  have h4: "shows_held s4" by auto
  from insertIcon_Inr_frame [OF ins] d3 have d4: "dimensions_set s4"
    by (simp add: dimensions_set_def)
  show "dimensions_set s'" using d4 by (simp add: s' observeAttributes_def dimensions_set_def)
  show "shows_held s'" using h4
    by (cases "icon_container s4") (simp_all add: s' observeAttributes_def shows_held_def)
  show "observer s'" by (simp add: s' observeAttributes_def)
qed

text \<open>
  C6. Once \<open>connectedCallback\<close> has completed (both variants resolved, the first icon
  inserted, the observer registered), no sequence of changes of the \<open>data-theme\<close> attribute
  and deliveries of the mutation records makes another call: the trace of fetches, cache
  reads and cache writes stays as it was, and so does the cache. The callback never
  throws, the two variants held stay the same, and the container shows nothing but them.
\<close>

theorem ready_theme_change_no_fetch:
  assumes "IconThemeAware_connectedCallback s w = Inr (s1, w1)"
  shows "\<exists>s2 w2. page_steps xs (s1, w1) = Inr (s2, w2)
           \<and> effects w2 = effects w1 \<and> cache w2 = cache w1
           \<and> iconLight s2 = iconLight s1 \<and> iconDark s2 = iconDark s1
           \<and> shows_held s2"
proof -
  from assms have h: "IconThemeAware_hydrate (IconThemeAware_render s) w = Inr (s1, w1)"
    by (simp add: IconThemeAware_connectedCallback_def)
  from page_steps_ready [OF hydrate_ready(1,2) [OF h], of xs w1]
  show ?thesis by (auto simp: same_variants_def)
qed

lemma hydrate_light_unavailable:
  assumes "IconThemeAware_connectedCallback s w = Inr (s', w')"
    and "attr_data_src_light s = Some src" and "cache w src = None" and "fetch_fails w src"
  shows "iconLight s' = None"
    and "insertIcon h wd (utf16 ''light'') s' = Inr (s'\<lparr>icon_container := Some []\<rparr>)"
proof -
  from assms(1) have hy: "IconThemeAware_hydrate (IconThemeAware_render s) w = Inr (s', w')"
    by (simp add: IconThemeAware_connectedCallback_def)
  from hy obtain s1 w1 s2 w2 s3 width height theme s4 where
    iv: "initVariables (IconThemeAware_render s) w = Inr (s1, w1)"
    and nf: "\<not> falsy (srcLight s1)"
    and ii: "initIcons s1 w1 = (s2, w2)"
    and fm: "fetch_missing s2 w2 = (s3, w')"
    and ins: "insertIcon height width theme s3 = Inr s4"
    and s': "s' = observeAttributes s4"
    by (rule hydrate_Inr)
  have src1: "srcLight s1 = Some src"
    using initVariables_Inr(3) [OF iv] assms(2) by (simp add: IconThemeAware_render_def)
  have ne: "src \<noteq> []" using nf src1 by (simp add: falsy_def)
  have c1: "cache w1 src = None" using initVariables_Inr(6) [OF iv] assms(3) by simp
  have l2: "iconLight s2 = None" using initIcons_value(1) [OF ii] src1 c1 by simp
  have n2: "network w2 = network w"
    using initIcons_value(9) [OF ii] initVariables_Inr(7) [OF iv] by simp
  have f2: "fetch_fails w2 src" using n2 assms(4) by (simp add: fetch_fails_def)
  have l3: "iconLight s3 = None"
    using fetch_missing_light_fails [OF fm l2 _ ne f2] initIcons_value(6) [OF ii] src1 by simp
  show l': "iconLight s' = None"
    using insertIcon_Inr_frame [OF ins] l3 by (simp add: s' observeAttributes_def)
  have "icon_container s3 \<noteq> None"
    using fetch_missing_frame(4) [OF fm] initIcons_value(8) [OF ii] initVariables_Inr(5) [OF iv]
    by (simp add: IconThemeAware_render_def)
  then obtain imgs where "icon_container s' = Some imgs"
    using insertIcon_Inr_frame [OF ins] by (auto simp: s' observeAttributes_def)
  from insertIcon_no_variant [OF this, of "utf16 ''light''" h wd] l' light_neq_dark
  show "insertIcon h wd (utf16 ''light'') s' = Inr (s'\<lparr>icon_container := Some []\<rparr>)"
    by simp
qed

lemma hydrate_dark_unavailable:
  assumes "IconThemeAware_connectedCallback s w = Inr (s', w')"
    and "attr_data_src_dark s = Some src" and "cache w src = None" and "fetch_fails w src"
  shows "iconDark s' = None"
    and "insertIcon h wd (utf16 ''dark'') s' = Inr (s'\<lparr>icon_container := Some []\<rparr>)"
proof -
  from assms(1) have hy: "IconThemeAware_hydrate (IconThemeAware_render s) w = Inr (s', w')"
    by (simp add: IconThemeAware_connectedCallback_def)
  from hy obtain s1 w1 s2 w2 s3 width height theme s4 where
    iv: "initVariables (IconThemeAware_render s) w = Inr (s1, w1)"
    and nf: "\<not> falsy (srcDark s1)"
    and ii: "initIcons s1 w1 = (s2, w2)"
    and fm: "fetch_missing s2 w2 = (s3, w')"
    and ins: "insertIcon height width theme s3 = Inr s4"
    and s': "s' = observeAttributes s4"
    by (rule hydrate_Inr)
  have src1: "srcDark s1 = Some src"
    using initVariables_Inr(4) [OF iv] assms(2) by (simp add: IconThemeAware_render_def)
  have ne: "src \<noteq> []" using nf src1 by (simp add: falsy_def)
  have c1: "cache w1 src = None" using initVariables_Inr(6) [OF iv] assms(3) by simp
  have l2: "iconDark s2 = None" using initIcons_value(2) [OF ii] src1 c1 by simp
  have n2: "network w2 = network w"
    using initIcons_value(9) [OF ii] initVariables_Inr(7) [OF iv] by simp
  have f2: "fetch_fails w2 src" using n2 assms(4) by (simp add: fetch_fails_def)
  have l3: "iconDark s3 = None"
    using fetch_missing_dark_fails [OF fm l2 _ ne f2] initIcons_value(7) [OF ii] src1 by simp
  show l': "iconDark s' = None"
    using insertIcon_Inr_frame [OF ins] l3 by (simp add: s' observeAttributes_def)
  have "icon_container s3 \<noteq> None"
    using fetch_missing_frame(4) [OF fm] initIcons_value(8) [OF ii] initVariables_Inr(5) [OF iv]
    by (simp add: IconThemeAware_render_def)
  then obtain imgs where "icon_container s' = Some imgs"
    using insertIcon_Inr_frame [OF ins] by (auto simp: s' observeAttributes_def)
  from insertIcon_no_variant [OF this, of "utf16 ''dark''" h wd] l' light_neq_dark
  show "insertIcon h wd (utf16 ''dark'') s' = Inr (s'\<lparr>icon_container := Some []\<rparr>)"
    by simp
qed

text \<open>
  C7. For every non-empty source URI whose fetch fails (rejected request, or a response
  that is not ok), \<open>fetchIcon\<close> returns \<open>null\<close>: the error raised in the \<open>try\<close> block is caught
  and logged, exactly one request was made, and nothing was put into the cache. When that
  URI is the light source of an element and the cache has no entry for it, a completed
  \<open>connectedCallback\<close> leaves \<open>iconLight\<close> \<open>null\<close>, and \<open>insertIcon\<close> for the light theme leaves
  the container empty; likewise for the dark source.
\<close>

theorem fetch_failure_unavailable:
  assumes "src \<noteq> []" and "fetch_fails w src"
  shows "fetchIcon (Some src) True w
           = (None, w\<lparr>effects := effects w @ [ConsoleLog, Fetch src, ConsoleError]\<rparr>)
       \<and> (\<forall>s s' w' h wd.
            IconThemeAware_connectedCallback s w = Inr (s', w')
            \<and> attr_data_src_light s = Some src \<and> cache w src = None
            \<longrightarrow> iconLight s' = None
                \<and> insertIcon h wd (utf16 ''light'') s' = Inr (s'\<lparr>icon_container := Some []\<rparr>))
       \<and> (\<forall>s s' w' h wd.
            IconThemeAware_connectedCallback s w = Inr (s', w')
            \<and> attr_data_src_dark s = Some src \<and> cache w src = None
            \<longrightarrow> iconDark s' = None
                \<and> insertIcon h wd (utf16 ''dark'') s' = Inr (s'\<lparr>icon_container := Some []\<rparr>))"
  using fetchIcon_fails [OF assms] hydrate_light_unavailable [OF _ _ _ assms(2)]
    hydrate_dark_unavailable [OF _ _ _ assms(2)]
  by blast

subsection \<open>The example page\<close>

lemmas icon_eval = IconThemeAware_connectedCallback_def IconThemeAware_render_def
  IconThemeAware_hydrate_def initVariables_def getSystemTheme_def getDimensionAttribute_def
  initIcons_def getIcon_def getCacheItem_def fetch_missing_def fetchIcon_def fetchIcon_try_def
  perform_def falsy_def insertIcon_def insert_light_def insert_dark_def append_img_def
  observeAttributes_def page_step_def on_mutation_def

lemma sun_neq_moon: "utf16 ''/sun.svg'' \<noteq> utf16 ''/moon.svg''"
  "utf16 ''/moon.svg'' \<noteq> utf16 ''/sun.svg''" "utf16 ''/sun.svg'' \<noteq> []" "utf16 ''/moon.svg'' \<noteq> []"
  by (simp_all add: utf16_def)

lemma parseInt_32: "parseInt (utf16 ''32'') = Some 32"
  by (simp add: js_eval)

lemma example_ready:
  "IconThemeAware_connectedCallback example_icon example_world = Inr (ready_icon, ready_world)"
  using sun_neq_moon light_neq_dark
  by (simp add: icon_eval example_icon_def example_world_def ready_icon_def ready_world_def
      parseInt_32 Let_def)

theorem ready_theme_change_no_fetch_witness:
  "IconThemeAware_connectedCallback example_icon example_world = Inr (ready_icon, ready_world)
   \<and> (\<exists>s2 w2. page_steps [SetTheme (Some (utf16 ''dark'')), Deliver] (ready_icon, ready_world)
                 = Inr (s2, w2)
         \<and> effects w2 = effects ready_world \<and> cache w2 = cache ready_world
         \<and> iconLight s2 = Some [1] \<and> iconDark s2 = Some [2]
         \<and> icon_container s2 = Some [\<lparr>img_width = 64, img_height = 32, img_src = [2],
                                        img_alt = utf16 ''Dark Icon''\<rparr>])"
proof -
  have sw: "page_steps [SetTheme (Some (utf16 ''dark'')), Deliver] (ready_icon, ready_world)
      = Inr (ready_icon\<lparr>currentTheme := Some (utf16 ''dark''),
                       icon_container := Some [\<lparr>img_width = 64, img_height = 32, img_src = [2],
                                                 img_alt = utf16 ''Dark Icon''\<rparr>],
                       pending := 0\<rparr>,
             ready_world\<lparr>doc_theme := Some (utf16 ''dark'')\<rparr>)"
    using light_neq_dark
    by (simp add: page_step_def on_mutation_def insertIcon_def insert_light_def insert_dark_def
        append_img_def ready_icon_def example_icon_def Let_def)
  from ready_theme_change_no_fetch [OF example_ready,
      of "[SetTheme (Some (utf16 ''dark'')), Deliver]"]
  show ?thesis
    using example_ready sw by (simp add: ready_icon_def)
qed

lemma offline_fetch_fails: "fetch_fails offline_world (utf16 ''/sun.svg'')"
  using sun_neq_moon by (simp add: fetch_fails_def offline_world_def example_world_def)

lemma offline_connected:
  "IconThemeAware_connectedCallback example_icon offline_world
     = Inr (ready_icon\<lparr>iconLight := None, icon_container := Some []\<rparr>,
            offline_world
              \<lparr>cache := (\<lambda>u. None)(utf16 ''/moon.svg'' := Some [2]),
               effects := [CacheMatch (utf16 ''/sun.svg''), CacheMatch (utf16 ''/moon.svg''),
                           ConsoleLog, Fetch (utf16 ''/sun.svg''), ConsoleError,
                           ConsoleLog, Fetch (utf16 ''/moon.svg''), CachePut (utf16 ''/moon.svg'')]\<rparr>)"
  using sun_neq_moon light_neq_dark
  by (simp add: icon_eval example_icon_def example_world_def offline_world_def ready_icon_def
      parseInt_32 Let_def)

theorem fetch_failure_unavailable_witness:
  "utf16 ''/sun.svg'' \<noteq> [] \<and> fetch_fails offline_world (utf16 ''/sun.svg'')
   \<and> fetchIcon (Some (utf16 ''/sun.svg'')) True offline_world
       = (None, offline_world\<lparr>effects := [ConsoleLog, Fetch (utf16 ''/sun.svg''), ConsoleError]\<rparr>)
   \<and> insertIcon 32 64 (utf16 ''light'') (ready_icon\<lparr>iconLight := None, icon_container := Some []\<rparr>)
       = Inr (ready_icon\<lparr>iconLight := None, icon_container := Some []\<rparr>)"
proof -
  have c: "cache offline_world (utf16 ''/sun.svg'') = None"
    by (simp add: offline_world_def example_world_def)
  have a: "attr_data_src_light example_icon = Some (utf16 ''/sun.svg'')"
    by (simp add: example_icon_def)
  have e: "effects offline_world = []" by (simp add: offline_world_def example_world_def)
  from fetch_failure_unavailable [OF sun_neq_moon(3) offline_fetch_fails]
  have f: "fetchIcon (Some (utf16 ''/sun.svg'')) True offline_world
       = (None, offline_world\<lparr>effects := effects offline_world
             @ [ConsoleLog, Fetch (utf16 ''/sun.svg''), ConsoleError]\<rparr>)"
    and l: "\<And>s s' w' h wd. IconThemeAware_connectedCallback s offline_world = Inr (s', w')
            \<Longrightarrow> attr_data_src_light s = Some (utf16 ''/sun.svg'')
            \<Longrightarrow> cache offline_world (utf16 ''/sun.svg'') = None
            \<Longrightarrow> insertIcon h wd (utf16 ''light'') s' = Inr (s'\<lparr>icon_container := Some []\<rparr>)"
    by blast+
  from l [OF offline_connected a c, of 32 64] f e sun_neq_moon(3) offline_fetch_fails
  show ?thesis by simp
qed

theorem insertIcon_only_matching_variant_witness:
  "icon_container ready_icon
     = Some [\<lparr>img_width = 64, img_height = 32, img_src = [1], img_alt = utf16 ''Light Icon''\<rparr>]
   \<and> insertIcon 32 64 (utf16 ''sepia'') ready_icon = Inr (ready_icon\<lparr>icon_container := Some []\<rparr>)
   \<and> insertIcon 32 64 (utf16 ''dark'') ready_icon
       = Inr (ready_icon\<lparr>icon_container :=
                Some [\<lparr>img_width = 64, img_height = 32, img_src = [2],
                       img_alt = utf16 ''Dark Icon''\<rparr>]\<rparr>)
   \<and> insertIcon 32 64 (utf16 ''light'') (ready_icon\<lparr>iconLight := None\<rparr>)
       = Inr (ready_icon\<lparr>iconLight := None, icon_container := Some []\<rparr>)"
proof -
  have c: "icon_container ready_icon
     = Some [\<lparr>img_width = 64, img_height = 32, img_src = [1], img_alt = utf16 ''Light Icon''\<rparr>]"
    by (simp add: ready_icon_def)
  have c': "icon_container (ready_icon\<lparr>iconLight := None\<rparr>)
     = Some [\<lparr>img_width = 64, img_height = 32, img_src = [1], img_alt = utf16 ''Light Icon''\<rparr>]"
    by (simp add: ready_icon_def)
  have n: "utf16 ''sepia'' \<noteq> utf16 ''light''" "utf16 ''sepia'' \<noteq> utf16 ''dark''"
    by (simp_all add: utf16_def)
  have d: "iconDark ready_icon = Some [2]" "iconWidth ready_icon = Some 64"
    "iconHeight ready_icon = Some 32"
    by (simp_all add: ready_icon_def)
  have l: "iconLight (ready_icon\<lparr>iconLight := None\<rparr>) = None" by simp
  from insertIcon_only_matching_variant [OF c, of "utf16 ''sepia''" 32 64] n
  have 1: "insertIcon 32 64 (utf16 ''sepia'') ready_icon = Inr (ready_icon\<lparr>icon_container := Some []\<rparr>)"
    by blast
  from insertIcon_only_matching_variant [OF c, of "utf16 ''dark''" 32 64] d
  have 2: "insertIcon 32 64 (utf16 ''dark'') ready_icon
       = Inr (ready_icon\<lparr>icon_container :=
                Some [\<lparr>img_width = 64, img_height = 32, img_src = [2],
                       img_alt = utf16 ''Dark Icon''\<rparr>]\<rparr>)"
    by blast
  from insertIcon_only_matching_variant [OF c', of "utf16 ''light''" 32 64] l light_neq_dark
  have 3: "insertIcon 32 64 (utf16 ''light'') (ready_icon\<lparr>iconLight := None\<rparr>)
       = Inr (ready_icon\<lparr>iconLight := None, icon_container := Some []\<rparr>)"
    by simp
  from c 1 2 3 show ?thesis by simp
qed

end
